(* ===== verification/Prelude.thy ===== *)
theory Prelude
  imports Main "HOL-Library.Word" "HOL-Library.Sublist"
begin

text \<open>
  Shared vocabulary of the development. JavaScript strings are sequences of UTF-16
  code units, so a string of the page is a list of \<open>16 word\<close> values
  (\<open>jstring\<close>); \<open>js\<close> turns an ASCII literal of the source into one. An exception
  thrown inside an event handler stops the handler but keeps what it already mutated;
  \<open>js_result\<close> records both. \<open>js_forEach\<close> is \<open>Array.prototype.forEach\<close> with
  that exception behaviour. The string built-ins the script calls
  (\<open>trim\<close>, \<open>toLowerCase\<close>, \<open>replace\<close> with a string pattern) are modelled from
  the ECMAScript specification; they are not code of the repository.
\<close>

named_theorems js_simps "evaluation rules of the JavaScript helpers"

type_synonym code_unit = "16 word"
type_synonym jstring = "code_unit list"

definition js :: "string \<Rightarrow> jstring" where
  "js s = map (\<lambda>c. of_nat (of_char c)) s"

datatype js_error = TypeError | SyntaxError

datatype 's js_result = Normal 's | Thrown js_error 's

fun res_state :: "'s js_result \<Rightarrow> 's" where
  "res_state (Normal s) = s"
| "res_state (Thrown e s) = s"

fun js_bind :: "'s js_result \<Rightarrow> ('s \<Rightarrow> 's js_result) \<Rightarrow> 's js_result" where
  "js_bind (Normal s) f = f s"
| "js_bind (Thrown e s) f = Thrown e s"

text \<open>\<open>xs.forEach(x => body)\<close>: the first exception ends the loop.\<close>

fun js_forEach :: "('a \<Rightarrow> 's \<Rightarrow> 's js_result) \<Rightarrow> 'a list \<Rightarrow> 's \<Rightarrow> 's js_result" where
  "js_forEach f [] s = Normal s"
| "js_forEach f (x # xs) s = js_bind (f x s) (js_forEach f xs)"

text \<open>ECMAScript WhiteSpace and LineTerminator code points, all in the BMP.\<close>

definition js_is_space :: "code_unit \<Rightarrow> bool" where
  "js_is_space c \<longleftrightarrow>
     c \<in> {0x09, 0x0A, 0x0B, 0x0C, 0x0D, 0x20, 0xA0, 0x1680, 0x2028, 0x2029,
          0x202F, 0x205F, 0x3000, 0xFEFF}
     \<or> (0x2000 \<le> c \<and> c \<le> 0x200A)"

definition js_trim :: "jstring \<Rightarrow> jstring" where
  "js_trim s = rev (dropWhile js_is_space (rev (dropWhile js_is_space s)))"

text \<open>
  \<open>toLowerCase\<close> on the code units A--Z; other units are left alone, which differs
  from the full Unicode mapping only on letters outside ASCII.
\<close>

definition js_lower_unit :: "code_unit \<Rightarrow> code_unit" where
  "js_lower_unit c = (if 0x41 \<le> c \<and> c \<le> 0x5A then c + 0x20 else c)"

definition js_toLowerCase :: "jstring \<Rightarrow> jstring" where
  "js_toLowerCase s = map js_lower_unit s"

text \<open>
  \<open>s.replace(pat, rep)\<close> with a string pattern: only the first occurrence is
  replaced; an empty pattern matches at the front. The replacement is taken literally
  (the script's only replacement string is empty, so no \<open>$\<close> pattern arises).
\<close>

fun js_replace_first :: "jstring \<Rightarrow> jstring \<Rightarrow> jstring \<Rightarrow> jstring" where
  "js_replace_first pat rep [] = (if pat = [] then rep else [])"
| "js_replace_first pat rep (c # cs) =
     (if take (length pat) (c # cs) = pat then rep @ drop (length pat) (c # cs)
      else c # js_replace_first pat rep cs)"

text \<open>Update the first element that satisfies \<open>P\<close> (what \<open>querySelector\<close> then an update does).\<close>

fun map_first :: "('a \<Rightarrow> bool) \<Rightarrow> ('a \<Rightarrow> 'a) \<Rightarrow> 'a list \<Rightarrow> 'a list" where
  "map_first P f [] = []"
| "map_first P f (x # xs) = (if P x then f x # xs else x # map_first P f xs)"

lemma js_bind_Normal [simp, js_simps]: "js_bind r Normal = r"
  by (cases r) simp_all

lemma res_state_js_bind_Thrown [simp]: "js_bind r f = Thrown e s \<Longrightarrow> r = Thrown e s \<or> (\<exists>s'. r = Normal s' \<and> f s' = Thrown e s)"
  by (cases r) auto

lemma js_bind_assoc [js_simps]:
  "js_bind (js_bind r f) g = js_bind r (\<lambda>s. js_bind (f s) g)"
  by (cases r) simp_all

lemma js_forEach_append [js_simps]:
  "js_forEach f (xs @ ys) s = js_bind (js_forEach f xs s) (js_forEach f ys)"
proof (induction xs arbitrary: s)
  case Nil
  then show ?case by simp
next
  case (Cons x xs)
  have "js_forEach f (xs @ ys) = (\<lambda>s. js_bind (js_forEach f xs s) (js_forEach f ys))"
    by (rule ext) (rule Cons.IH)
  then show ?case by (simp add: js_bind_assoc)
qed

text \<open>A loop whose body never throws is a left fold.\<close>

lemma js_forEach_fold:
  assumes "\<And>x s. f x s = Normal (g x s)"
  shows "js_forEach f xs s = Normal (fold g xs s)"
  by (induction xs arbitrary: s) (simp_all add: assms)

lemma js_char_unat [simp]: "unat (of_nat (of_char c) :: 16 word) = of_char c"
proof -
  have "of_char c < (65536::nat)"
    using nat_of_char_less_256 [of c] by linarith
  then show ?thesis by (simp add: unat_of_nat)
qed

lemma js_inj [simp]: "js s = js t \<longleftrightarrow> s = t"
proof
  assume "js s = js t"
  then have "map unat (js s) = map unat (js t)" by simp
  then have "map of_char s = map (of_char :: char \<Rightarrow> nat) t"
    by (simp add: js_def comp_def)
  moreover have "inj (of_char :: char \<Rightarrow> nat)"
    by (meson injI of_char_eq_iff)
  ultimately show "s = t" by (simp add: inj_map_eq_map)
qed simp

lemma js_Nil [simp]: "js [] = []" and js_Cons [js_simps]: "js (c # s) = of_nat (of_char c) # js s"
  by (simp_all add: js_def)

lemma js_eq_Nil_iff [simp]: "js s = [] \<longleftrightarrow> s = []"
  by (simp add: js_def)

lemma js_append [simp]: "js (s @ t) = js s @ js t"
  by (simp add: js_def)

lemma length_js [simp]: "length (js s) = length s"
  by (simp add: js_def)

lemma js_trim_Nil_iff: "js_trim s = [] \<longleftrightarrow> (\<forall>c\<in>set s. js_is_space c)"
  unfolding js_trim_def by (induction s) auto

lemma js_trim_no_space [simp]:
  "s \<noteq> [] \<Longrightarrow> \<not> js_is_space (hd s) \<Longrightarrow> \<not> js_is_space (last s) \<Longrightarrow> js_trim s = s"
proof -
  assume ne: "s \<noteq> []" and h: "\<not> js_is_space (hd s)" and l: "\<not> js_is_space (last s)"
  from ne h have front: "dropWhile js_is_space s = s"
    by (simp add: dropWhile_eq_self_iff)
  from ne l have "dropWhile js_is_space (rev s) = rev s"
    by (simp add: dropWhile_eq_self_iff hd_rev)
  with front show "js_trim s = s" by (simp add: js_trim_def)
qed

lemma js_replace_first_absent:
  "c \<notin> set s \<Longrightarrow> js_replace_first [c] rep s = s"
  by (induction s) auto

lemma js_replace_first_head [simp]:
  "js_replace_first [c] rep (c # s) = rep @ s"
  by simp

lemma js_toLowerCase_e_iff:
  "js_toLowerCase k = js ''e'' \<longleftrightarrow> k = js ''e'' \<or> k = js ''E''"
proof -
  have shift: "u + 0x20 = 0x65 \<longleftrightarrow> u = 0x45" for u :: code_unit
  proof -
    have "(0x65::code_unit) = 0x45 + 0x20" by simp
    then show ?thesis by simp
  qed
  have unit: "js_lower_unit u = 0x65 \<longleftrightarrow> u = 0x65 \<or> u = 0x45" for u :: code_unit
    by (auto simp: js_lower_unit_def shift)
  show ?thesis
    by (cases k) (auto simp: js_toLowerCase_def js_def unit)
qed

lemma sublist_append_mid: "sublist ys zs \<Longrightarrow> sublist ys (xs @ zs)"
  by (metis sublist_order.dual_order.trans sublist_append_leftI)

lemma sublist_Cons_mid: "sublist ys zs \<Longrightarrow> sublist ys (z # zs)"
  by (simp add: sublist_Cons_right)

lemma length_map_first [simp]: "length (map_first P f xs) = length xs"
  by (induction xs) auto

lemma map_first_none: "\<forall>x\<in>set xs. \<not> P x \<Longrightarrow> map_first P f xs = xs"
  by (induction xs) auto

lemma js_forEach_inv:
  assumes "\<And>x s. P s \<Longrightarrow> P (res_state (f x s))" and "P s"
  shows "P (res_state (js_forEach f xs s))"
  using assms(2)
proof (induction xs arbitrary: s)
  case (Cons x xs)
  show ?case
  proof (cases "f x s")
    case (Normal s')
    from assms(1) [OF Cons.prems, of x] Normal have "P s'" by simp
    then have "P (res_state (js_forEach f xs s'))" by (rule Cons.IH)
    with Normal show ?thesis by simp
  next
    case (Thrown e s')
    from assms(1) [OF Cons.prems, of x] Thrown have "P s'" by simp
    with Thrown show ?thesis by simp
  qed
qed simp

lemma filter_eq_single: "distinct xs \<Longrightarrow> x \<in> set xs \<Longrightarrow> filter (\<lambda>y. y = x) xs = [x]"
  by (induction xs) (auto simp: filter_empty_conv)

end
