(* ===== verification/ClassList.thy ===== *)
theory ClassList
  imports Prelude
begin

text \<open>
  The \<open>classList\<close> of an element (a DOMTokenList) as the script uses it: an ordered
  set of class names, with \<open>add\<close>, \<open>remove\<close>, \<open>toggle\<close> and \<open>contains\<close>.
  This is browser behaviour, modelled from the DOM standard: \<open>add\<close> appends a token
  that is absent, \<open>remove\<close> deletes every occurrence, \<open>toggle\<close> removes a present
  token and adds an absent one. The tokens the script passes (\<open>active\<close>, \<open>in\<close>,
  \<open>glow\<close>) are non-empty and contain no white space, so the standard's
  SyntaxError and InvalidCharacterError cases never arise and are not modelled.
  A class list is kept duplicate-free (\<open>distinct\<close>), and every operation keeps it so.
\<close>

type_synonym class_list = "jstring list"

definition cl_add :: "jstring \<Rightarrow> class_list \<Rightarrow> class_list" where
  "cl_add c cs = (if c \<in> set cs then cs else cs @ [c])"

definition cl_remove :: "jstring \<Rightarrow> class_list \<Rightarrow> class_list" where
  "cl_remove c cs = removeAll c cs"

definition cl_contains :: "jstring \<Rightarrow> class_list \<Rightarrow> bool" where
  "cl_contains c cs \<longleftrightarrow> c \<in> set cs"

definition cl_toggle :: "jstring \<Rightarrow> class_list \<Rightarrow> class_list" where
  "cl_toggle c cs = (if cl_contains c cs then cl_remove c cs else cl_add c cs)"

text \<open>The class \<open>active\<close>, used by the header links and by the filter buttons.\<close>

definition active_cls :: jstring where
  "active_cls = js ''active''"

lemma set_cl_add [simp]: "set (cl_add c cs) = insert c (set cs)"
  by (auto simp: cl_add_def)

lemma set_cl_remove [simp]: "set (cl_remove c cs) = set cs - {c}"
  by (simp add: cl_remove_def)

lemma cl_contains_iff [simp]: "cl_contains c cs \<longleftrightarrow> c \<in> set cs"
  by (simp add: cl_contains_def)

lemma set_cl_toggle [simp]:
  "set (cl_toggle c cs) = (if c \<in> set cs then set cs - {c} else insert c (set cs))"
  by (simp add: cl_toggle_def)

lemma distinct_cl_add [simp]: "distinct (cl_add c cs) \<longleftrightarrow> distinct cs"
  by (simp add: cl_add_def)

lemma distinct_cl_remove [simp]: "distinct cs \<Longrightarrow> distinct (cl_remove c cs)"
  by (simp add: cl_remove_def distinct_removeAll)

lemma distinct_cl_toggle [simp]: "distinct cs \<Longrightarrow> distinct (cl_toggle c cs)"
  by (simp add: cl_toggle_def)

lemma cl_add_present [simp]: "c \<in> set cs \<Longrightarrow> cl_add c cs = cs"
  by (simp add: cl_add_def)

lemma cl_remove_absent [simp]: "c \<notin> set cs \<Longrightarrow> cl_remove c cs = cs"
  by (simp add: cl_remove_def)

text \<open>
  Toggling twice restores the set of classes but not always their order: a present
  token is removed and then appended at the end.
\<close>

lemma set_cl_toggle_twice: "set (cl_toggle c (cl_toggle c cs)) = set cs"
  by auto

lemma cl_toggle_twice_absent: "c \<notin> set cs \<Longrightarrow> cl_toggle c (cl_toggle c cs) = cs"
  by (simp add: cl_toggle_def cl_add_def cl_remove_def)

lemma cl_remove_cl_add_same [simp]: "cl_remove c (cl_add c cs) = cl_remove c cs"
  by (simp add: cl_remove_def cl_add_def)

lemma cl_remove_idem [simp]: "cl_remove c (cl_remove c cs) = cl_remove c cs"
  by (simp add: cl_remove_def)

lemmas cl_simps = set_cl_add set_cl_remove set_cl_toggle cl_contains_iff

end
