(* ===== verification/Escape.thy ===== *)
theory Escape
  imports Prelude
begin

text \<open>
  \<open>escapeHtml\<close> (src/script.js line 72): one global regular-expression replacement
  over the character class \<open>[&<>"']\<close> whose callback looks the matched unit up in an
  object literal. The object literal is \<open>escape_table\<close>; the class is
  \<open>html_special\<close>; a lookup that misses would insert the string \<open>undefined\<close>, as
  JavaScript does, but the class and the table have the same keys, so it never happens.
  Beside it: \<open>unescapeHtml\<close>, the decoding of these five character references that
  an HTML parser performs (the reference for the roundtrip theorem), and
  \<open>escape_chained\<close>, the usual chain of five \<open>replace\<close> calls with \<open>&\<close> first
  (the reference for the equivalence theorem).
\<close>

definition html_special :: "code_unit \<Rightarrow> bool" where
  "html_special c \<longleftrightarrow> c \<in> {0x26, 0x3C, 0x3E, 0x22, 0x27}"

definition escape_table :: "(code_unit \<times> jstring) list" where
  \<open>escape_table =
     [(0x26, js ''&amp;''), (0x3C, js ''&lt;''), (0x3E, js ''&gt;''),
      (0x22, js ''&quot;''), (0x27, js ''&#39;'')]\<close>

definition escape_callback :: "code_unit \<Rightarrow> jstring" where
  "escape_callback c = (case map_of escape_table c of Some e \<Rightarrow> e | None \<Rightarrow> js ''undefined'')"

definition escapeHtml :: "jstring \<Rightarrow> jstring" where
  "escapeHtml s = concat (map (\<lambda>c. if html_special c then escape_callback c else [c]) s)"

text \<open>The effect of \<open>escapeHtml\<close> on one code unit, the five cases and the rest.\<close>

definition escape_unit :: "code_unit \<Rightarrow> jstring" where
  "escape_unit c = (if html_special c then escape_callback c else [c])"

subsection \<open>Reference definitions\<close>

text \<open>The character references HTML decodes to these five characters.\<close>

definition html_references :: "(code_unit \<times> jstring) list" where
  \<open>html_references =
     [(0x26, js ''&amp;''), (0x3C, js ''&lt;''), (0x3E, js ''&gt;''),
      (0x22, js ''&quot;''), (0x27, js ''&#39;'')]\<close>

fun entity_at :: "(code_unit \<times> jstring) list \<Rightarrow> jstring \<Rightarrow> (code_unit \<times> nat) option" where
  "entity_at [] s = None"
| "entity_at ((c, e) # t) s = (if take (length e) s = e then Some (c, length e) else entity_at t s)"

function unescapeHtml :: "jstring \<Rightarrow> jstring" where
  "unescapeHtml [] = []"
| "unescapeHtml (c # cs) =
     (case entity_at html_references (c # cs) of
        Some (u, n) \<Rightarrow> u # unescapeHtml (drop n (c # cs))
      | None \<Rightarrow> c # unescapeHtml cs)"
  by pat_completeness auto

termination unescapeHtml
  by (relation "measure length") (auto simp: html_references_def js_def split: if_splits)

definition replace_all_unit :: "code_unit \<Rightarrow> jstring \<Rightarrow> jstring \<Rightarrow> jstring" where
  "replace_all_unit c r s = concat (map (\<lambda>x. if x = c then r else [x]) s)"

definition escape_chained :: "jstring \<Rightarrow> jstring" where
  \<open>escape_chained s =
     replace_all_unit 0x27 (js ''&#39;'')
      (replace_all_unit 0x22 (js ''&quot;'')
        (replace_all_unit 0x3E (js ''&gt;'')
          (replace_all_unit 0x3C (js ''&lt;'')
            (replace_all_unit 0x26 (js ''&amp;'') s))))\<close>


subsection \<open>Per-unit behaviour\<close>

lemma escapeHtml_concat: "escapeHtml s = concat (map escape_unit s)"
  by (simp add: escapeHtml_def escape_unit_def [abs_def])

lemma escape_unit_cases:
  \<open>escape_unit 0x26 = js ''&amp;''\<close> \<open>escape_unit 0x3C = js ''&lt;''\<close>
  \<open>escape_unit 0x3E = js ''&gt;''\<close> \<open>escape_unit 0x22 = js ''&quot;''\<close>
  \<open>escape_unit 0x27 = js ''&#39;''\<close>
  "\<not> html_special c \<Longrightarrow> escape_unit c = [c]"
  by (simp_all add: escape_unit_def escape_callback_def escape_table_def html_special_def)

lemma html_special_cases:
  "html_special c \<longleftrightarrow> c = 0x26 \<or> c = 0x3C \<or> c = 0x3E \<or> c = 0x22 \<or> c = 0x27"
  by (auto simp: html_special_def)

lemma escapeHtml_Nil [simp]: "escapeHtml [] = []"
  by (simp add: escapeHtml_def)

lemma escapeHtml_Cons: "escapeHtml (c # s) = escape_unit c @ escapeHtml s"
  by (simp add: escapeHtml_concat)

lemma escapeHtml_append [simp]: "escapeHtml (s @ t) = escapeHtml s @ escapeHtml t"
  by (simp add: escapeHtml_concat)

subsection \<open>Properties\<close>

lemma escape_unit_no_markup:
  "x \<in> set (escape_unit c) \<Longrightarrow> x \<notin> {0x3C, 0x3E, 0x22, 0x27}"
  by (cases "html_special c")
     (auto simp: html_special_cases escape_unit_cases js_def html_special_def)


lemma escapeHtml_units:
  "x \<in> set (escapeHtml s) \<Longrightarrow> x \<noteq> 0x3C \<and> x \<noteq> 0x3E \<and> x \<noteq> 0x22 \<and> x \<noteq> 0x27"
  by (auto simp: escapeHtml_concat dest: escape_unit_no_markup)

lemma count_escapeHtml [simp]:
  "count_list (escapeHtml s) 0x3C = 0" "count_list (escapeHtml s) 0x3E = 0"
  "count_list (escapeHtml s) 0x22 = 0" "count_list (escapeHtml s) 0x27 = 0"
  by (auto simp: count_list_0_iff dest: escapeHtml_units)

text \<open>C4: the output of \<open>escapeHtml\<close> contains none of the units \<open><\<close>, \<open>>\<close>, \<open>"\<close> and \<open>'\<close>, whatever its input, so text it produces cannot open a tag or close an attribute value.\<close>
lemma escapeHtml_no_markup: "set (escapeHtml s) \<inter> {0x3C, 0x3E, 0x22, 0x27} = {}"
  by (auto dest: escapeHtml_units)

lemma unescape_escape_unit: "unescapeHtml (escape_unit c @ s) = c # unescapeHtml s"
proof (cases "html_special c")
  case True
  then show ?thesis
    by (auto simp: html_special_cases escape_unit_cases js_def html_references_def)
next
  case False
  then have "c \<noteq> 0x26" by (simp add: html_special_def)
  then have "entity_at html_references (c # s) = None"
    by (simp add: html_references_def js_def)
  with False show ?thesis by (simp add: escape_unit_cases)
qed


text \<open>C5: decoding the five character references of the output of \<open>escapeHtml\<close> gives back its input exactly: the escaping loses nothing.\<close>
theorem escapeHtml_roundtrip: "unescapeHtml (escapeHtml s) = s"
  by (induction s) (simp_all add: escapeHtml_Cons unescape_escape_unit)

lemma escape_chained_unit: "escape_chained [c] = escape_unit c"
  by (cases "html_special c")
     (auto simp: html_special_cases escape_unit_cases escape_chained_def replace_all_unit_def js_def html_special_def)

lemma replace_all_unit_append [simp]:
  "replace_all_unit c r (s @ t) = replace_all_unit c r s @ replace_all_unit c r t"
  by (simp add: replace_all_unit_def)

lemma escape_chained_Cons: "escape_chained (c # s) = escape_chained [c] @ escape_chained s"
  using replace_all_unit_append by (metis append_Cons append_Nil escape_chained_def)


text \<open>C15: the single-pass regular-expression replacement of \<open>escapeHtml\<close> equals the chain of five per-character replacements that starts with \<open>&\<close>.\<close>
theorem escapeHtml_chained: "escapeHtml s = escape_chained s"
proof (induction s)
  case Nil
  then show ?case by (simp add: escape_chained_def replace_all_unit_def)
next
  case (Cons c s)
  then show ?case
    by (simp add: escapeHtml_Cons escape_chained_unit escape_chained_Cons [of c s])
qed

lemma length_escape_unit: "1 \<le> length (escape_unit c) \<and> length (escape_unit c) \<le> 6"
  by (cases "html_special c") (auto simp: html_special_cases escape_unit_cases)


text \<open>C24: the output of \<open>escapeHtml\<close> is at least as long as its input and at most six times as long.\<close>
theorem escapeHtml_length:
  "length s \<le> length (escapeHtml s) \<and> length (escapeHtml s) \<le> 6 * length s"
proof (induction s)
  case (Cons c s)
  with length_escape_unit [of c] show ?case by (simp add: escapeHtml_Cons)
qed simp


lemma length_escapeHtml_ge: "length s \<le> length (escapeHtml s)"
proof (induction s)
  case (Cons c s)
  with length_escape_unit [of c] show ?case by (simp add: escapeHtml_Cons)
qed simp

lemma escape_unit_plain: "c \<notin> {0x26, 0x3C, 0x3E, 0x22, 0x27} \<Longrightarrow> escape_unit c = [c]"
  by (simp add: escape_unit_def html_special_cases)

lemma escape_unit_special: "c \<in> {0x26, 0x3C, 0x3E, 0x22, 0x27} \<Longrightarrow> 4 \<le> length (escape_unit c)"
  by (auto simp: escape_unit_cases js_def)


text \<open>C25: \<open>escapeHtml\<close> returns its argument unchanged exactly when the argument holds none of the five units \<open>& < > " '\<close>: other text is never rewritten, and every one of the five is.\<close>
theorem escapeHtml_plain: "escapeHtml s = s \<longleftrightarrow> set s \<inter> {0x26, 0x3C, 0x3E, 0x22, 0x27} = {}"
proof (induction s)
  case (Cons c s)
  show ?case
  proof (cases "c \<in> {0x26, 0x3C, 0x3E, 0x22, 0x27}")
    case True
    then have "length (c # s) < length (escapeHtml (c # s))"
      using escape_unit_special [OF True] length_escapeHtml_ge [of s] by (simp add: escapeHtml_Cons)
    with True show ?thesis by auto
  next
    case False
    with Cons.IH show ?thesis by (simp add: escapeHtml_Cons escape_unit_plain)
  qed
qed simp

end
