(* ===== verification/Overlay.thy ===== *)
theory Overlay
  imports Prelude
begin

text \<open>
  Transient nodes: \<open>toast\<close> (src/script.js lines 74--81) and \<open>showModal\<close>
  (lines 84--100), with the timers and click listeners that remove them. The state
  (\<open>overlay\<close>) is the part of the document they touch: the nodes appended to
  \<open>document.body\<close> in document order, the clock in milliseconds, the pending
  \<open>setTimeout\<close> callbacks as (due time, node to remove), the click listeners attached
  to \<open>#modalClose\<close> buttons as (modal whose button carries the listener, modal the
  listener removes), and the focused close button. A node's \<open>remove()\<close> on a node
  that is already detached does nothing, as in the DOM.
  The close button is found with \<open>qs('#modalClose')\<close>, the first element with that
  id in the document: while an older modal is still open this is the older modal's
  button, so the listener of the new modal lands on the old button. The static page is
  assumed to hold no other element with id \<open>modalClose\<close>, and the backdrop of each
  modal is found inside that modal, so clicking it always removes its own modal.
\<close>

datatype node_kind = ToastNode | ModalNode

record tnode =
  nid :: nat
  nkind :: node_kind
  nclass :: jstring
  ntext :: jstring
  nstyle :: "(jstring \<times> jstring) list"

record overlay =
  body :: "tnode list"
  next_nid :: nat
  clock :: nat
  timers :: "(nat \<times> nat) list"
  close_listeners :: "(nat \<times> nat) list"
  focused :: "nat option"

definition attached :: "nat \<Rightarrow> overlay \<Rightarrow> bool" where
  "attached n ov \<longleftrightarrow> (\<exists>x\<in>set (body ov). nid x = n)"

definition remove_node :: "nat \<Rightarrow> overlay \<Rightarrow> overlay" where
  "remove_node n ov = ov\<lparr>body := filter (\<lambda>x. nid x \<noteq> n) (body ov)\<rparr>"

definition toast_style :: "(jstring \<times> jstring) list" where
  \<open>toast_style =
     [(js ''position'', js ''fixed''), (js ''right'', js ''18px''), (js ''bottom'', js ''18px''),
      (js ''background'', js ''#021025''), (js ''color'', js ''#fff''),
      (js ''padding'', js ''10px 14px''), (js ''borderRadius'', js ''8px''),
      (js ''zIndex'', js ''1200'')]\<close>

definition toast :: "jstring \<Rightarrow> overlay \<Rightarrow> overlay" where
  "toast text ov =
     (let t = \<lparr>nid = next_nid ov, nkind = ToastNode, nclass = js ''toast'', ntext = text,
               nstyle = toast_style\<rparr>
      in ov\<lparr>body := body ov @ [t], next_nid := Suc (next_nid ov),
            timers := timers ov @ [(clock ov + 2400, nid t)]\<rparr>)"

definition nl :: jstring where
  "nl = [0x0A]"

definition modal_markup :: "jstring \<Rightarrow> jstring \<Rightarrow> jstring" where
  \<open>modal_markup title htmlContent =
     nl @ js ''      <div class="modal-backdrop"></div>'' @ nl @
     js ''      <div class="modal-card">'' @ nl @
     js ''        <h3>'' @ title @ js ''</h3>'' @ nl @
     js ''        <div class="modal-body">'' @ htmlContent @ js ''</div>'' @ nl @
     js ''        <div class="modal-actions"><button class="btn primary" id="modalClose">Close</button></div>'' @ nl @
     js ''      </div>''\<close>

text \<open>\<open>qs('#modalClose')\<close>: the close button of the first modal in document order.\<close>

definition first_modal :: "tnode list \<Rightarrow> nat option" where
  "first_modal ns = map_option nid (find (\<lambda>x. nkind x = ModalNode) ns)"

definition showModal :: "jstring \<Rightarrow> jstring \<Rightarrow> bool \<Rightarrow> overlay \<Rightarrow> overlay" where
  "showModal title htmlContent autoClose ov =
     (let m = next_nid ov;
          modal = \<lparr>nid = m, nkind = ModalNode, nclass = js ''site-modal'',
                   ntext = modal_markup title htmlContent, nstyle = []\<rparr>;
          ov1 = ov\<lparr>body := body ov @ [modal], next_nid := Suc m\<rparr>;
          closeBtn = (case first_modal (body ov1) of Some b \<Rightarrow> b | None \<Rightarrow> m)
      in ov1\<lparr>focused := Some closeBtn,
             close_listeners := close_listeners ov1 @ [(closeBtn, m)],
             timers := (if autoClose then timers ov1 @ [(clock ov + 3000, m)] else timers ov1)\<rparr>)"

subsection \<open>Events that remove nodes\<close>

text \<open>
  Time passes by \<open>d\<close> milliseconds: every callback due by then runs, in order of its
  due time (\<open>sort_key\<close> is stable, so ties run in the order they were scheduled).
\<close>

definition fire_timer :: "nat \<times> nat \<Rightarrow> overlay \<Rightarrow> overlay" where
  "fire_timer tm ov = remove_node (snd tm) ov"

definition tick :: "nat \<Rightarrow> overlay \<Rightarrow> overlay" where
  "tick d ov =
     (let t = clock ov + d;
          due = filter (\<lambda>tm. fst tm \<le> t) (timers ov);
          ov1 = ov\<lparr>clock := t, timers := filter (\<lambda>tm. \<not> fst tm \<le> t) (timers ov)\<rparr>
      in fold fire_timer (sort_key fst due) ov1)"

text \<open>A click on the close button of modal \<open>m\<close> runs every listener that button carries.\<close>

definition close_click :: "nat \<Rightarrow> overlay \<Rightarrow> overlay" where
  "close_click m ov =
     (if attached m ov
      then fold (\<lambda>l. remove_node (snd l)) (filter (\<lambda>l. fst l = m) (close_listeners ov)) ov
      else ov)"

definition backdrop_click :: "nat \<Rightarrow> overlay \<Rightarrow> overlay" where
  "backdrop_click m ov = (if attached m ov then remove_node m ov else ov)"

subsection \<open>Invariant\<close>

text \<open>
  Every transient node has a pending removal, no timer is due later than 3000 ms from
  now, and the node counter is fresh for nodes, timers and listeners.
\<close>

definition overlay_inv :: "overlay \<Rightarrow> bool" where
  "overlay_inv ov \<longleftrightarrow>
     (\<forall>x\<in>set (body ov). \<exists>tm\<in>set (timers ov). snd tm = nid x) \<and>
     (\<forall>tm\<in>set (timers ov). clock ov < fst tm \<and> fst tm \<le> clock ov + 3000 \<and> snd tm < next_nid ov) \<and>
     (\<forall>x\<in>set (body ov). nid x < next_nid ov) \<and>
     (\<forall>l\<in>set (close_listeners ov). fst l < next_nid ov \<and> snd l < next_nid ov)"

definition overlay_init :: overlay where
  "overlay_init = \<lparr>body = [], next_nid = 0, clock = 0, timers = [], close_listeners = [],
                   focused = None\<rparr>"

subsection \<open>Properties\<close>

lemma remove_node_fields [simp]:
  "body (remove_node n ov) = filter (\<lambda>x. nid x \<noteq> n) (body ov)"
  "next_nid (remove_node n ov) = next_nid ov" "clock (remove_node n ov) = clock ov"
  "timers (remove_node n ov) = timers ov" "close_listeners (remove_node n ov) = close_listeners ov"
  "focused (remove_node n ov) = focused ov"
  by (simp_all add: remove_node_def)

lemma fold_remove_node:
  "fold (\<lambda>l. remove_node (f l)) ls ov = ov\<lparr>body := filter (\<lambda>x. nid x \<notin> f ` set ls) (body ov)\<rparr>"
  by (induction ls arbitrary: ov) (auto simp: remove_node_def intro: filter_cong)

lemma attached_iff: "attached n ov \<longleftrightarrow> n \<in> nid ` set (body ov)"
  by (auto simp: attached_def)

lemma tick_eq:
  "tick d ov = ov\<lparr>clock := clock ov + d,
      timers := filter (\<lambda>tm. \<not> fst tm \<le> clock ov + d) (timers ov),
      body := filter (\<lambda>x. nid x \<notin> snd ` {tm \<in> set (timers ov). fst tm \<le> clock ov + d}) (body ov)\<rparr>"
proof -
  have "fold fire_timer tms = fold (\<lambda>l. remove_node (snd l)) tms" for tms :: "(nat \<times> nat) list"
    by (simp add: fire_timer_def [abs_def])
  then show ?thesis
    by (simp add: tick_def Let_def fold_remove_node)
qed

lemma first_modal_in: "first_modal ns = Some b \<Longrightarrow> b \<in> nid ` set ns"
  by (induction ns) (auto simp: first_modal_def split: if_splits)

lemma first_modal_append_modal:
  "nkind x = ModalNode \<Longrightarrow> \<exists>b. first_modal (ns @ [x]) = Some b"
  by (induction ns) (auto simp: first_modal_def)

lemma overlay_inv_init: "overlay_inv overlay_init"
  by (simp add: overlay_inv_def overlay_init_def)

lemma toast_inv: "overlay_inv ov \<Longrightarrow> overlay_inv (toast txt ov)"
  by (auto simp: overlay_inv_def toast_def Let_def)

lemma showModal_inv: "overlay_inv ov \<Longrightarrow> overlay_inv (showModal t h True ov)"
proof -
  assume inv: "overlay_inv ov"
  let ?m = "\<lparr>nid = next_nid ov, nkind = ModalNode, nclass = js ''site-modal'',
             ntext = modal_markup t h, nstyle = []\<rparr>"
  obtain b where b: "first_modal (body ov @ [?m]) = Some b"
    using first_modal_append_modal [of ?m "body ov"] by auto
  then have "b \<in> nid ` set (body ov @ [?m])" by (rule first_modal_in)
  with inv have "b < Suc (next_nid ov)" by (auto simp: overlay_inv_def)
  with inv b show ?thesis
    by (auto simp: overlay_inv_def showModal_def Let_def)
qed

lemma tick_inv: "overlay_inv ov \<Longrightarrow> overlay_inv (tick d ov)"
proof -
  assume inv: "overlay_inv ov"
  let ?t = "clock ov + d"
  let ?due = "{tm \<in> set (timers ov). fst tm \<le> ?t}"
  have keep: "\<exists>a. (a, nid x) \<in> set (timers ov) \<and> \<not> a \<le> ?t"
    if "x \<in> set (body ov)" and "nid x \<notin> snd ` ?due" for x
  proof -
    from inv that(1) obtain tm where tm: "tm \<in> set (timers ov)" "snd tm = nid x"
      by (auto simp: overlay_inv_def)
    have "\<not> fst tm \<le> ?t"
    proof
      assume "fst tm \<le> ?t"
      with tm have "nid x \<in> snd ` ?due" by (metis (mono_tags, lifting) image_eqI mem_Collect_eq)
      with that(2) show False by contradiction
    qed
    with tm show ?thesis by (metis prod.collapse)
  qed
  show ?thesis
    using inv keep unfolding overlay_inv_def tick_eq by auto
qed

lemma close_click_inv: "overlay_inv ov \<Longrightarrow> overlay_inv (close_click m ov)"
  by (auto simp: overlay_inv_def close_click_def fold_remove_node)

lemma backdrop_click_inv: "overlay_inv ov \<Longrightarrow> overlay_inv (backdrop_click m ov)"
  by (auto simp: overlay_inv_def backdrop_click_def)


lemma tick_clears_all: "overlay_inv ov \<Longrightarrow> body (tick 3000 ov) = []"
proof -
  assume inv: "overlay_inv ov"
  have "nid x \<in> snd ` {tm \<in> set (timers ov). fst tm \<le> clock ov + 3000}"
    if "x \<in> set (body ov)" for x
  proof -
    from inv that obtain tm where tm: "tm \<in> set (timers ov)" "snd tm = nid x"
      by (auto simp: overlay_inv_def)
    from inv tm(1) have "fst tm \<le> clock ov + 3000" by (simp add: overlay_inv_def)
    with tm show ?thesis by (metis (mono_tags, lifting) image_eqI mem_Collect_eq)
  qed
  then show ?thesis by (simp add: tick_eq filter_empty_conv)
qed


text \<open>C14: a toast created at time t is in the document exactly while less than 2400 ms have passed.\<close>
lemma attached_toast_tick:
  assumes inv: "overlay_inv ov"
  shows "attached (next_nid ov) (tick d (toast txt ov)) \<longleftrightarrow> d < 2400"
proof -
  have old: "(a, next_nid ov) \<notin> set (timers ov)" for a
    using inv by (auto simp: overlay_inv_def)
  have "next_nid ov \<in> nid ` set (body (tick d (toast txt ov)))
        \<longleftrightarrow> \<not> clock ov + 2400 \<le> clock ov + d"
    using old by (auto simp: tick_eq toast_def Let_def image_iff)
  then show ?thesis by (simp add: attached_iff not_le)
qed

lemma find_modal_append:
  "\<forall>x\<in>set ns. nkind x \<noteq> ModalNode \<Longrightarrow>
   find (\<lambda>x. nkind x = ModalNode) (ns @ ms) = find (\<lambda>x. nkind x = ModalNode) ms"
  by (induction ns) auto


text \<open>C19: when a second modal is opened while a first one is still open, clicking the Close button of the second modal leaves the second modal open: \<open>qs('#modalClose')\<close> attached its listener to the first modal's button.\<close>
theorem modal_close_stale_listener:
  assumes inv: "overlay_inv ov" and none: "\<forall>x\<in>set (body ov). nkind x \<noteq> ModalNode"
  shows "attached (Suc (next_nid ov))
           (close_click (Suc (next_nid ov)) (showModal t2 h2 a2 (showModal t1 h1 a1 ov)))"
proof -
  have fresh: "(Suc (next_nid ov), m) \<notin> set (close_listeners ov)" for m
    using inv by (auto simp: overlay_inv_def)
  show ?thesis
    using none fresh
    by (auto simp: close_click_def showModal_def Let_def first_modal_def attached_iff
        find_modal_append fold_remove_node image_iff)
qed

theorem attached_toast_tick_witness:
  "overlay_inv overlay_init \<and>
   attached 0 (tick 2399 (toast (js ''hi'') overlay_init)) \<and>
   \<not> attached 0 (tick 2400 (toast (js ''hi'') overlay_init))"
proof -
  have inv: "overlay_inv overlay_init" by (simp add: overlay_inv_def overlay_init_def)
  have "next_nid overlay_init = 0" by (simp add: overlay_init_def)
  with attached_toast_tick [OF inv, of 2399] attached_toast_tick [OF inv, of 2400] inv
  show ?thesis by simp
qed

theorem modal_close_stale_listener_witness:
  "overlay_inv overlay_init \<and> body overlay_init = [] \<and>
   attached 1 (close_click 1 (showModal (js ''B'') [] True (showModal (js ''A'') [] True overlay_init)))"
proof -
  have inv: "overlay_inv overlay_init" by (simp add: overlay_inv_def overlay_init_def)
  have none: "\<forall>x\<in>set (body overlay_init). nkind x \<noteq> ModalNode" by (simp add: overlay_init_def)
  have "next_nid overlay_init = 0" by (simp add: overlay_init_def)
  with modal_close_stale_listener [OF inv none, of "js ''B''" "[]" True "js ''A''" "[]" True] inv
  show ?thesis by (simp add: overlay_init_def)
qed

end
