(* ===== verification/Form.thy ===== *)
theory Form
  imports Escape Overlay
begin

text \<open>
  The contact form: \<open>window.sendMessage\<close> (src/script.js lines 57--70) and
  \<open>window.prefillMessage\<close> (lines 103--109). The form's controls \<open>#name\<close>,
  \<open>#email\<close>, \<open>#msg\<close> and \<open>#school\<close> are optional elements (\<open>None\<close> when the
  page has no such element), each with its current value and the default value that
  \<open>reset()\<close> restores. \<open>(qs('#x')||{}).value || ''\<close> reads a missing element as
  the empty string. The handler is wired as the form's submit handler, so
  \<open>evt.target\<close> is the form and \<open>reset()\<close> resets its four controls; the
  default submission is always prevented and the handler returns \<open>false\<close> on both
  branches, so no request is ever sent. The visible effects (toast, modal) go to the
  overlay state of theory \<open>Overlay\<close>.
\<close>

record field =
  fvalue :: jstring
  fdefault :: jstring

record contact_form =
  name_el :: "field option"
  email_el :: "field option"
  msg_el :: "field option"
  school_el :: "field option"

definition field_value :: "field option \<Rightarrow> jstring" where
  "field_value el = (case el of None \<Rightarrow> [] | Some f \<Rightarrow> fvalue f)"

definition reset_field :: "field \<Rightarrow> field" where
  "reset_field f = f\<lparr>fvalue := fdefault f\<rparr>"

definition form_reset :: "contact_form \<Rightarrow> contact_form" where
  "form_reset f =
     \<lparr>name_el = map_option reset_field (name_el f), email_el = map_option reset_field (email_el f),
      msg_el = map_option reset_field (msg_el f), school_el = map_option reset_field (school_el f)\<rparr>"

definition fill_warning :: jstring where
  "fill_warning = js ''Please fill all required fields.''"

definition received_title :: jstring where
  "received_title = js ''Message Received''"

text \<open>The em dash of the message is the code unit U+2014.\<close>

definition thanks_html :: "jstring \<Rightarrow> jstring \<Rightarrow> jstring" where
  "thanks_html name email =
     js ''Thanks <strong>'' @ escapeHtml name @ js ''</strong> '' @ [0x2014] @
     js '' I will reply to <em>'' @ escapeHtml email @ js ''</em> soon.''"

definition sendMessage :: "contact_form \<Rightarrow> overlay \<Rightarrow> contact_form \<times> overlay" where
  "sendMessage f ov =
     (let name = field_value (name_el f);
          email = field_value (email_el f);
          msg = field_value (msg_el f)
      in if js_trim name = [] \<or> js_trim email = [] \<or> js_trim msg = []
         then (f, toast fill_warning ov)
         else (form_reset f, showModal received_title (thanks_html name email) True ov))"

definition prefill_school :: jstring where
  "prefill_school = js ''Grace School Gbagada''"

definition prefill_msg :: jstring where
  "prefill_msg = js ''Hi Mr Darasimi, I want to register 30 students for HTML Essentials starting next month. Please advise.''"

definition prefill_notice :: jstring where
  "prefill_notice = js ''Sample message added. Edit as needed and send.''"

definition prefillMessage :: "contact_form \<Rightarrow> overlay \<Rightarrow> contact_form \<times> overlay" where
  "prefillMessage f ov =
     (f\<lparr>school_el := map_option (\<lambda>x. x\<lparr>fvalue := prefill_school\<rparr>) (school_el f),
        msg_el := map_option (\<lambda>x. x\<lparr>fvalue := prefill_msg\<rparr>) (msg_el f)\<rparr>,
      toast prefill_notice ov)"

text \<open>A field is filled when its trimmed value is not empty.\<close>

definition filled :: "field option \<Rightarrow> bool" where
  "filled el \<longleftrightarrow> js_trim (field_value el) \<noteq> []"

text \<open>
  The user typing into a control of the form (browser behaviour, not script code):
  the control's value becomes the typed text. A control the page lacks cannot be
  typed into.
\<close>

datatype form_control = NameCtl | EmailCtl | MsgCtl | SchoolCtl

definition type_into :: "form_control \<Rightarrow> jstring \<Rightarrow> contact_form \<Rightarrow> contact_form" where
  "type_into c v f =
     (let set_value = map_option (\<lambda>x. x\<lparr>fvalue := v\<rparr>)
      in case c of
           NameCtl \<Rightarrow> f\<lparr>name_el := set_value (name_el f)\<rparr>
         | EmailCtl \<Rightarrow> f\<lparr>email_el := set_value (email_el f)\<rparr>
         | MsgCtl \<Rightarrow> f\<lparr>msg_el := set_value (msg_el f)\<rparr>
         | SchoolCtl \<Rightarrow> f\<lparr>school_el := set_value (school_el f)\<rparr>)"

subsection \<open>Properties\<close>


lemma sublist_thanks:
  "sublist (escapeHtml n) (thanks_html n e) \<and> sublist (escapeHtml e) (thanks_html n e)"
  unfolding thanks_html_def
  by (fast intro: sublist_append_mid sublist_Cons_mid sublist_append_rightI)

lemma sublist_modal_markup: "sublist h (modal_markup t h)"
  unfolding modal_markup_def
  by (fast intro: sublist_append_mid sublist_append_rightI)



text \<open>C1: submitting the form while the name, the e-mail or the message is empty after trimming shows the warning toast and leaves the form exactly as it was; no modal is shown.\<close>
lemma sendMessage_rejects:
  assumes "\<not> filled (name_el f) \<or> \<not> filled (email_el f) \<or> \<not> filled (msg_el f)"
  shows "sendMessage f ov = (f, toast fill_warning ov)"
  using assms by (auto simp: sendMessage_def filled_def Let_def)

lemma sendMessage_filled:
  assumes "filled (name_el f)" "filled (email_el f)" "filled (msg_el f)"
  shows "sendMessage f ov =
           (form_reset f, showModal received_title
                            (thanks_html (field_value (name_el f)) (field_value (email_el f))) True ov)"
  using assms by (simp add: sendMessage_def filled_def Let_def)

lemma count_thanks: "count_list (thanks_html n e) 0x3C = 4"
  by (simp add: thanks_html_def js_def count_list_append)

lemma count_modal_markup:
  "count_list (modal_markup t h) 0x3C = 12 + count_list t 0x3C + count_list h 0x3C"
  by (simp add: modal_markup_def nl_def js_def)

lemma count_received_title [simp]: "count_list received_title 0x3C = 0"
  by (simp add: received_title_def js_def)

lemma last_body_showModal:
  "last (body (showModal t h a ov)) =
     \<lparr>nid = next_nid ov, nkind = ModalNode, nclass = js ''site-modal'',
      ntext = modal_markup t h, nstyle = []\<rparr>"
  by (simp add: showModal_def Let_def)


text \<open>C3: whatever the user types, the confirmation modal built by \<open>sendMessage\<close> contains exactly the sixteen tag openers of its template: user input adds no markup.\<close>
theorem sendMessage_no_injection:
  assumes "filled (name_el f)" "filled (email_el f)" "filled (msg_el f)"
  shows "count_list (ntext (last (body (snd (sendMessage f ov))))) 0x3C = 16"
  using assms
  by (simp add: sendMessage_filled last_body_showModal count_modal_markup count_thanks)


text \<open>C2: submitting the form with all three required fields filled resets the form and shows a modal whose markup contains the HTML-escaped name and the HTML-escaped e-mail.\<close>
theorem sendMessage_confirms:
  assumes "filled (name_el f)" "filled (email_el f)" "filled (msg_el f)"
  shows "fst (sendMessage f ov) = form_reset f \<and>
         nkind (last (body (snd (sendMessage f ov)))) = ModalNode \<and>
         sublist (escapeHtml (field_value (name_el f))) (ntext (last (body (snd (sendMessage f ov))))) \<and>
         sublist (escapeHtml (field_value (email_el f))) (ntext (last (body (snd (sendMessage f ov)))))"
  using assms
  by (simp add: sendMessage_filled last_body_showModal)
     (meson sublist_thanks sublist_modal_markup sublist_order.dual_order.trans)

lemma filled_prefill_msg: "msg_el f \<noteq> None \<Longrightarrow> filled (msg_el (fst (prefillMessage f ov)))"
  by (auto simp: prefillMessage_def filled_def field_value_def prefill_msg_def js_def js_is_space_def)

lemma prefill_keeps_name_email [simp]:
  "name_el (fst (prefillMessage f ov)) = name_el f" "email_el (fst (prefillMessage f ov)) = email_el f"
  by (simp_all add: prefillMessage_def)


text \<open>C17: after \<open>prefillMessage\<close> a form whose name and e-mail are filled is accepted by \<open>sendMessage\<close>, which resets it.\<close>
theorem prefill_then_send:
  assumes "filled (name_el f)" "filled (email_el f)" "msg_el f \<noteq> None"
  shows "fst (sendMessage (fst (prefillMessage f ov)) ov') = form_reset (fst (prefillMessage f ov))"
  using assms filled_prefill_msg [OF assms(3)] by (simp add: sendMessage_filled)

lemma sendMessage_inv: "overlay_inv ov \<Longrightarrow> overlay_inv (snd (sendMessage f ov))"
  by (simp add: sendMessage_def Let_def toast_inv showModal_inv)

lemma prefillMessage_inv: "overlay_inv ov \<Longrightarrow> overlay_inv (snd (prefillMessage f ov))"
  by (simp add: prefillMessage_def toast_inv)

lemma filled_example:
  "filled (Some \<lparr>fvalue = js ''Ada'', fdefault = []\<rparr>)"
  "filled (Some \<lparr>fvalue = js ''ada@example.org'', fdefault = []\<rparr>)"
  "filled (Some \<lparr>fvalue = js ''Hello'', fdefault = []\<rparr>)"
  "\<not> filled (Some \<lparr>fvalue = js '' '', fdefault = []\<rparr>)"
  by (simp_all add: filled_def field_value_def js_trim_def js_is_space_def js_def)

theorem sendMessage_rejects_witness:
  "sendMessage \<lparr>name_el = Some \<lparr>fvalue = js ''Ada'', fdefault = []\<rparr>,
                email_el = Some \<lparr>fvalue = js '' '', fdefault = []\<rparr>,
                msg_el = Some \<lparr>fvalue = js ''Hello'', fdefault = []\<rparr>, school_el = None\<rparr> overlay_init
   = (\<lparr>name_el = Some \<lparr>fvalue = js ''Ada'', fdefault = []\<rparr>,
       email_el = Some \<lparr>fvalue = js '' '', fdefault = []\<rparr>,
       msg_el = Some \<lparr>fvalue = js ''Hello'', fdefault = []\<rparr>, school_el = None\<rparr>,
      toast fill_warning overlay_init)"
  by (rule sendMessage_rejects) (simp add: filled_example)

theorem sendMessage_confirms_witness:
  "fst (sendMessage \<lparr>name_el = Some \<lparr>fvalue = js ''Ada'', fdefault = []\<rparr>,
                email_el = Some \<lparr>fvalue = js ''ada@example.org'', fdefault = []\<rparr>,
                msg_el = Some \<lparr>fvalue = js ''Hello'', fdefault = []\<rparr>, school_el = None\<rparr> overlay_init)
     = \<lparr>name_el = Some \<lparr>fvalue = [], fdefault = []\<rparr>,
        email_el = Some \<lparr>fvalue = [], fdefault = []\<rparr>,
        msg_el = Some \<lparr>fvalue = [], fdefault = []\<rparr>, school_el = None\<rparr> \<and>
   sublist (escapeHtml (js ''Ada''))
     (ntext (last (body (snd (sendMessage \<lparr>name_el = Some \<lparr>fvalue = js ''Ada'', fdefault = []\<rparr>,
                email_el = Some \<lparr>fvalue = js ''ada@example.org'', fdefault = []\<rparr>,
                msg_el = Some \<lparr>fvalue = js ''Hello'', fdefault = []\<rparr>, school_el = None\<rparr> overlay_init)))))"
proof -
  let ?f = "\<lparr>name_el = Some \<lparr>fvalue = js ''Ada'', fdefault = []\<rparr>,
             email_el = Some \<lparr>fvalue = js ''ada@example.org'', fdefault = []\<rparr>,
             msg_el = Some \<lparr>fvalue = js ''Hello'', fdefault = []\<rparr>, school_el = None\<rparr>"
  have "filled (name_el ?f)" "filled (email_el ?f)" "filled (msg_el ?f)"
    by (simp_all add: filled_example)
  from sendMessage_confirms [OF this, of overlay_init] show ?thesis
    by (simp add: form_reset_def reset_field_def field_value_def)
qed

theorem sendMessage_no_injection_witness:
  "count_list (ntext (last (body (snd (sendMessage
      \<lparr>name_el = Some \<lparr>fvalue = js ''<script>'', fdefault = []\<rparr>,
       email_el = Some \<lparr>fvalue = js ''ada@example.org'', fdefault = []\<rparr>,
       msg_el = Some \<lparr>fvalue = js ''Hello'', fdefault = []\<rparr>, school_el = None\<rparr> overlay_init))))) 0x3C = 16"
proof -
  let ?f = "\<lparr>name_el = Some \<lparr>fvalue = js ''<script>'', fdefault = []\<rparr>,
             email_el = Some \<lparr>fvalue = js ''ada@example.org'', fdefault = []\<rparr>,
             msg_el = Some \<lparr>fvalue = js ''Hello'', fdefault = []\<rparr>, school_el = None\<rparr>"
  have "filled (name_el ?f)"
    by (simp add: filled_def field_value_def js_trim_def js_is_space_def js_def)
  moreover have "filled (email_el ?f)" "filled (msg_el ?f)"
    by (simp_all add: filled_example)
  ultimately show ?thesis by (rule sendMessage_no_injection)
qed

theorem prefill_then_send_witness:
  "fst (sendMessage (fst (prefillMessage
      \<lparr>name_el = Some \<lparr>fvalue = js ''Ada'', fdefault = []\<rparr>,
       email_el = Some \<lparr>fvalue = js ''ada@example.org'', fdefault = []\<rparr>,
       msg_el = Some \<lparr>fvalue = [], fdefault = []\<rparr>, school_el = None\<rparr> overlay_init)) overlay_init)
   = form_reset (fst (prefillMessage
      \<lparr>name_el = Some \<lparr>fvalue = js ''Ada'', fdefault = []\<rparr>,
       email_el = Some \<lparr>fvalue = js ''ada@example.org'', fdefault = []\<rparr>,
       msg_el = Some \<lparr>fvalue = [], fdefault = []\<rparr>, school_el = None\<rparr> overlay_init))"
  by (rule prefill_then_send) (simp_all add: filled_example)

end
