(* ===== verification/Nav.thy ===== *)
theory Nav
  imports ClassList
begin

text \<open>
  Navigation: \<open>scrollToSection\<close> (src/script.js lines 8--11), the click handlers of
  the header links (lines 17--23), the explore button (lines 26--27), the scroll-spy
  observer (lines 30--42) and the keyboard shortcut (lines 112--114).
  The state is what these handlers read and write: the links of \<open>nav a\<close> in
  document order (their \<open>href\<close> attribute, \<open>None\<close> when absent, and their class
  list), the ids of the document's elements in document order (for
  \<open>getElementById\<close>), and the list of elements scrolled into view so far.
  A handler that throws is modelled by \<open>js_result\<close>: the exception ends the handler
  and keeps what it had already changed.
  The spy looks its link up with the selector \<open>nav a[href="#ID"]\<close>. For an id
  without double quote, backslash, NUL or CSS newline (\<open>plain_id\<close>) the selector
  matches the links whose \<open>href\<close> is \<open>#\<close> followed by the id; an id with a
  double quote or a newline makes the selector invalid, and \<open>querySelector\<close> throws
  a SyntaxError. Ids with a backslash or NUL (CSS escapes) are treated the same way,
  which over-approximates: the model does not unescape CSS strings.
\<close>

record nav_link =
  href :: "jstring option"
  link_classes :: class_list

record nav_state =
  links :: "nav_link list"
  doc_ids :: "jstring list"
  scrolled :: "jstring list"

text \<open>\<open>document.getElementById(id)\<close>: the empty id names no element.\<close>

definition getElementById :: "jstring list \<Rightarrow> jstring \<Rightarrow> jstring option" where
  "getElementById ids i = (if i \<noteq> [] \<and> i \<in> set ids then Some i else None)"

definition scrollToSection :: "jstring \<Rightarrow> nav_state \<Rightarrow> nav_state" where
  "scrollToSection i st =
     (case getElementById (doc_ids st) i of
        Some el \<Rightarrow> st\<lparr>scrolled := scrolled st @ [el]\<rparr>
      | None \<Rightarrow> st)"

text \<open>
  The click handler of link \<open>a\<close>: the default navigation is prevented, the target is
  the \<open>href\<close> with its first \<open>#\<close> removed; a link without \<open>href\<close> makes
  \<open>null.replace\<close> throw a TypeError.
\<close>

definition nav_click :: "nav_link \<Rightarrow> nav_state \<Rightarrow> nav_state js_result" where
  "nav_click a st =
     (case href a of
        None \<Rightarrow> Thrown TypeError st
      | Some h \<Rightarrow> Normal (scrollToSection (js_replace_first (js ''#'') [] h) st))"

definition explore_click :: "nav_state \<Rightarrow> nav_state" where
  "explore_click st = scrollToSection (js ''courses'') st"

definition plain_id :: "jstring \<Rightarrow> bool" where
  "plain_id i \<longleftrightarrow> list_all (\<lambda>c. c \<notin> {0x22, 0x5C, 0x0A, 0x0C, 0x0D, 0x00}) i"

definition clear_active :: "nav_link list \<Rightarrow> nav_link list" where
  "clear_active ls = map (\<lambda>n. n\<lparr>link_classes := cl_remove active_cls (link_classes n)\<rparr>) ls"

definition mark_link :: "jstring \<Rightarrow> nav_link list \<Rightarrow> nav_link list" where
  "mark_link i ls =
     map_first (\<lambda>n. href n = Some (js ''#'' @ i))
               (\<lambda>n. n\<lparr>link_classes := cl_add active_cls (link_classes n)\<rparr>) ls"

text \<open>One entry of the observer callback: (\<open>entry.target.id\<close>, \<open>entry.isIntersecting\<close>).\<close>

definition spy_entry :: "jstring \<times> bool \<Rightarrow> nav_state \<Rightarrow> nav_state js_result" where
  "spy_entry e st =
     (if snd e then
        (let st1 = st\<lparr>links := clear_active (links st)\<rparr>
         in if plain_id (fst e) then Normal (st1\<lparr>links := mark_link (fst e) (links st1)\<rparr>)
            else Thrown SyntaxError st1)
      else Normal st)"

definition spy_callback :: "(jstring \<times> bool) list \<Rightarrow> nav_state \<Rightarrow> nav_state js_result" where
  "spy_callback entries st = js_forEach spy_entry entries st"

record key_event =
  key :: jstring
  ctrlKey :: bool
  metaKey :: bool
  target_editable :: bool

definition keydown :: "key_event \<Rightarrow> nav_state \<Rightarrow> nav_state" where
  "keydown ev st =
     (if js_toLowerCase (key ev) = js ''e'' \<and> \<not> ctrlKey ev \<and> \<not> metaKey ev
      then scrollToSection (js ''courses'') st else st)"

text \<open>At most one link carries the class \<open>active\<close>.\<close>

definition active_links :: "nav_state \<Rightarrow> nav_link list" where
  "active_links st = filter (\<lambda>n. active_cls \<in> set (link_classes n)) (links st)"

definition spy_inv :: "nav_state \<Rightarrow> bool" where
  "spy_inv st \<longleftrightarrow> length (active_links st) \<le> 1"

subsection \<open>Properties\<close>

lemma links_scrollToSection [simp]: "links (scrollToSection i st) = links st"
  by (simp add: scrollToSection_def split: option.splits)

lemma doc_ids_scrollToSection [simp]: "doc_ids (scrollToSection i st) = doc_ids st"
  by (simp add: scrollToSection_def split: option.splits)

lemma active_clear_active: "filter (\<lambda>n. active_cls \<in> set (link_classes n)) (clear_active ls) = []"
  by (simp add: clear_active_def filter_empty_conv)

lemma active_mark_link:
  "filter (\<lambda>n. active_cls \<in> set (link_classes n)) ls = [] \<Longrightarrow>
   length (filter (\<lambda>n. active_cls \<in> set (link_classes n)) (mark_link i ls)) \<le> 1"
  by (induction ls) (auto simp: mark_link_def filter_empty_conv)

lemma clear_active_mark_link: "clear_active (mark_link i ls) = clear_active ls"
  by (induction ls) (simp_all add: mark_link_def clear_active_def cl_add_def cl_remove_def)

lemma clear_active_idem: "clear_active (clear_active ls) = clear_active ls"
  by (simp add: clear_active_def cl_remove_def)

lemma spy_entry_inv: "spy_inv st \<Longrightarrow> spy_inv (res_state (spy_entry e st))"
  using active_mark_link [OF active_clear_active]
  by (auto simp: spy_entry_def spy_inv_def active_links_def Let_def active_clear_active)

theorem spy_callback_inv: "spy_inv st \<Longrightarrow> spy_inv (res_state (spy_callback entries st))"
  unfolding spy_callback_def by (rule js_forEach_inv [where P = spy_inv]) (rule spy_entry_inv)

lemma spy_callback_quiet: "filter snd entries = [] \<Longrightarrow> spy_callback entries st = Normal st"
  by (induction entries) (auto simp: spy_callback_def spy_entry_def)

theorem spy_last_wins:
  assumes "list_all (\<lambda>e. plain_id (fst e)) entries" and "filter snd entries \<noteq> []"
  shows "spy_callback entries st =
           Normal (st\<lparr>links := mark_link (fst (last (filter snd entries))) (clear_active (links st))\<rparr>)"
  using assms
proof (induction entries arbitrary: st)
  case Nil
  then show ?case by simp
next
  case (Cons x xs)
  show ?case
  proof (cases "snd x")
    case True
    let ?st1 = "st\<lparr>links := mark_link (fst x) (clear_active (links st))\<rparr>"
    have step: "spy_entry x st = Normal ?st1"
      using True Cons.prems(1) by (simp add: spy_entry_def)
    show ?thesis
    proof (cases "filter snd xs = []")
      case True
      with step \<open>snd x\<close> show ?thesis
        by (simp add: spy_callback_def spy_callback_quiet [unfolded spy_callback_def])
    next
      case False
      with Cons.IH [of ?st1] Cons.prems(1) have "spy_callback xs ?st1 =
          Normal (?st1\<lparr>links := mark_link (fst (last (filter snd xs))) (clear_active (links ?st1))\<rparr>)"
        by simp
      with step False \<open>snd x\<close> show ?thesis
        by (simp add: spy_callback_def clear_active_mark_link clear_active_idem)
    qed
  next
    case False
    then have "spy_entry x st = Normal st" by (simp add: spy_entry_def)
    with False Cons show ?thesis by (simp add: spy_callback_def)
  qed
qed


text \<open>C6: clicking a header link whose \<open>href\<close> is \<open>#ID\<close> scrolls to the element with id ID when there is one, and to nothing else; otherwise nothing happens.\<close>
theorem nav_click_scrolls:
  assumes "href a = Some (js ''#'' @ i)"
  shows "nav_click a st =
           Normal (if i \<noteq> [] \<and> i \<in> set (doc_ids st) then st\<lparr>scrolled := scrolled st @ [i]\<rparr> else st)"
  using assms by (simp add: nav_click_def scrollToSection_def getElementById_def js_Cons)


text \<open>C20: a header link to another page such as \<open>index.html#about\<close> neither navigates (the default is prevented) nor scrolls to \<open>#about\<close>: only the first \<open>#\<close> is removed, giving the target \<open>index.htmlabout\<close>.\<close>
theorem nav_click_page_link:
  assumes "js ''index.htmlabout'' \<notin> set (doc_ids st)"
  shows "nav_click \<lparr>href = Some (js ''index.html#about''), link_classes = cs\<rparr> st = Normal st"
proof -
  have "js_replace_first (js ''#'') [] (js ''index.html#about'') = js ''index.htmlabout''"
    by (simp add: js_def)
  with assms show ?thesis
    by (simp add: nav_click_def scrollToSection_def getElementById_def)
qed

lemma keydown_eq:
  "keydown ev st =
     (if (key ev = js ''e'' \<or> key ev = js ''E'') \<and> \<not> ctrlKey ev \<and> \<not> metaKey ev
      then scrollToSection (js ''courses'') st else st)"
  by (simp add: keydown_def js_toLowerCase_e_iff)


text \<open>C21: pressing the key e without Ctrl or Meta scrolls to the courses section even when the key is typed into a text field of the form: the shortcut handler ignores the event target.\<close>
theorem keydown_in_field_scrolls:
  assumes "key ev = js ''e''" "\<not> ctrlKey ev" "\<not> metaKey ev" "js ''courses'' \<in> set (doc_ids st)"
  shows "scrolled (keydown ev st) = scrolled st @ [js ''courses'']"
  using assms by (simp add: keydown_eq scrollToSection_def getElementById_def)





lemma links_nav_click [simp]: "links (res_state (nav_click a st)) = links st"
  by (simp add: nav_click_def split: option.splits)

lemma links_keydown [simp]: "links (keydown ev st) = links st"
  by (simp add: keydown_def)

lemma links_explore_click [simp]: "links (explore_click st) = links st"
  by (simp add: explore_click_def)

lemma href_clear_active [simp]: "map href (clear_active ls) = map href ls"
  by (simp add: clear_active_def comp_def)

lemma active_hrefs_mark_link:
  "filter (\<lambda>n. active_cls \<in> set (link_classes n)) ls = [] \<Longrightarrow>
   map href (filter (\<lambda>n. active_cls \<in> set (link_classes n)) (mark_link i ls)) =
   take 1 (filter (\<lambda>h. h = Some (js ''#'' @ i)) (map href ls))"
  by (induction ls) (auto simp: mark_link_def filter_empty_conv)


text \<open>C7: after an observer callback in which some section intersects, the only highlighted link is the first link pointing to the last intersecting section; when no link points to it, no link is highlighted.\<close>
theorem spy_highlights_target:
  assumes "list_all (\<lambda>e. plain_id (fst e)) entries" and "filter snd entries \<noteq> []"
  shows "map href (active_links (res_state (spy_callback entries st))) =
           take 1 (filter (\<lambda>h. h = Some (js ''#'' @ fst (last (filter snd entries)))) (map href (links st)))"
  using spy_last_wins [OF assms] active_hrefs_mark_link [OF active_clear_active, of _ "links st"]
  by (simp add: active_links_def)

theorem spy_highlights_target_witness:
  "map href (active_links (res_state (spy_callback [(js ''home'', True), (js ''about'', True)]
      \<lparr>links = [\<lparr>href = Some (js ''#home''), link_classes = [active_cls]\<rparr>,
                 \<lparr>href = Some (js ''#about''), link_classes = []\<rparr>],
       doc_ids = [js ''home'', js ''about''], scrolled = []\<rparr>)))
   = [Some (js ''#about'')]"
proof -
  have "list_all (\<lambda>e. plain_id (fst e)) [(js ''home'', True), (js ''about'', True)]"
    by (simp add: plain_id_def js_def)
  from spy_highlights_target [OF this] show ?thesis by (simp add: js_def)
qed

theorem nav_click_scrolls_witness:
  "nav_click \<lparr>href = Some (js ''#about''), link_classes = []\<rparr>
      \<lparr>links = [], doc_ids = [js ''home'', js ''about''], scrolled = []\<rparr>
   = Normal \<lparr>links = [], doc_ids = [js ''home'', js ''about''], scrolled = [js ''about'']\<rparr>"
proof -
  have "href \<lparr>href = Some (js ''#about''), link_classes = []\<rparr> = Some (js ''#'' @ js ''about'')"
    by (simp add: js_def)
  from nav_click_scrolls [OF this] show ?thesis by simp
qed

theorem keydown_in_field_scrolls_witness:
  "scrolled (keydown \<lparr>key = js ''e'', ctrlKey = False, metaKey = False, target_editable = True\<rparr>
      \<lparr>links = [], doc_ids = [js ''courses''], scrolled = []\<rparr>) = [js ''courses'']"
  using keydown_in_field_scrolls [of "\<lparr>key = js ''e'', ctrlKey = False, metaKey = False, target_editable = True\<rparr>"
      "\<lparr>links = [], doc_ids = [js ''courses''], scrolled = []\<rparr>"]
  by simp

theorem nav_click_page_link_witness:
  "nav_click \<lparr>href = Some (js ''index.html#about''), link_classes = []\<rparr>
      \<lparr>links = [], doc_ids = [js ''about''], scrolled = []\<rparr>
   = Normal \<lparr>links = [], doc_ids = [js ''about''], scrolled = []\<rparr>"
  by (rule nav_click_page_link) (simp add: js_def)


end
