(* ===== verification/Reveal.thy ===== *)
theory Reveal
  imports ClassList
begin

text \<open>
  Reveal on scroll (src/script.js lines 45--54). The elements of \<open>.fade-up\<close> are
  numbered; the state holds each element's class list and the targets the
  \<open>fadeObserver\<close> still observes. The callback receives a batch of entries
  (\<open>entry.target\<close>, \<open>entry.isIntersecting\<close>); for each intersecting entry it adds
  the class \<open>in\<close> and stops observing the target. The body never throws, so the
  \<open>forEach\<close> is a left fold.
  The IntersectionObserver itself (platform behaviour, modelled from the spec) only
  queues entries for targets it observes when the batch is built: \<open>deliver\<close> keeps
  exactly those. Which targets cross the 20 per cent threshold is the browser's
  decision, so a batch is an arbitrary list of entries; \<open>fade_run\<close> runs a sequence
  of batches.
\<close>

record fade_state =
  fade_classes :: "nat \<Rightarrow> class_list"
  observed :: "nat list"

definition in_cls :: jstring where
  "in_cls = js ''in''"

definition fade_entry :: "nat \<times> bool \<Rightarrow> fade_state \<Rightarrow> fade_state" where
  "fade_entry e st =
     (if snd e
      then st\<lparr>fade_classes := (fade_classes st)(fst e := cl_add in_cls (fade_classes st (fst e))),
              observed := removeAll (fst e) (observed st)\<rparr>
      else st)"

definition fade_callback :: "(nat \<times> bool) list \<Rightarrow> fade_state \<Rightarrow> fade_state" where
  "fade_callback entries st = fold fade_entry entries st"

text \<open>\<open>faders.forEach(f => fadeObserver.observe(f))\<close>; observing twice is a no-op.\<close>

definition fade_init :: "nat list \<Rightarrow> (nat \<Rightarrow> class_list) \<Rightarrow> fade_state" where
  "fade_init faders cls = \<lparr>fade_classes = cls, observed = remdups faders\<rparr>"

definition deliver :: "fade_state \<Rightarrow> (nat \<times> bool) list \<Rightarrow> (nat \<times> bool) list" where
  "deliver st b = filter (\<lambda>e. fst e \<in> set (observed st)) b"

fun fade_run :: "(nat \<times> bool) list list \<Rightarrow> fade_state \<Rightarrow> fade_state" where
  "fade_run [] st = st"
| "fade_run (b # bs) st = fade_run bs (fade_callback (deliver st b) st)"

text \<open>Every observed element is still hidden; every revealed fader is unobserved.\<close>

definition fade_inv :: "nat list \<Rightarrow> fade_state \<Rightarrow> bool" where
  "fade_inv faders st \<longleftrightarrow>
     set (observed st) \<subseteq> set faders \<and>
     list_all (\<lambda>f. f \<in> set (observed st) \<longleftrightarrow> in_cls \<notin> set (fade_classes st f)) faders"

subsection \<open>Properties\<close>

lemma fade_entry_other: "fst e \<noteq> f \<Longrightarrow> fade_classes (fade_entry e st) f = fade_classes st f"
  by (simp add: fade_entry_def)

lemma observed_fade_entry: "set (observed (fade_entry e st)) \<subseteq> set (observed st)"
  by (auto simp: fade_entry_def)

lemma fade_callback_untouched:
  "f \<notin> fst ` set entries \<Longrightarrow> fade_classes (fade_callback entries st) f = fade_classes st f"
  by (induction entries arbitrary: st) (auto simp: fade_callback_def fade_entry_other)

lemma observed_fade_callback: "set (observed (fade_callback entries st)) \<subseteq> set (observed st)"
  by (induction entries arbitrary: st) (auto simp: fade_callback_def dest: subsetD [OF observed_fade_entry])

lemma deliver_observed: "f \<notin> set (observed st) \<Longrightarrow> f \<notin> fst ` set (deliver st b)"
  by (auto simp: deliver_def)

lemma fade_run_untouched:
  "f \<notin> set (observed st) \<Longrightarrow> fade_classes (fade_run bs st) f = fade_classes st f"
proof (induction bs arbitrary: st)
  case (Cons b bs)
  let ?st' = "fade_callback (deliver st b) st"
  have "f \<notin> set (observed ?st')"
    using Cons.prems observed_fade_callback by blast
  then have "fade_classes (fade_run bs ?st') f = fade_classes ?st' f" by (rule Cons.IH)
  also have "\<dots> = fade_classes st f"
    by (rule fade_callback_untouched [OF deliver_observed [OF Cons.prems]])
  finally show ?case by simp
qed simp

lemma fade_run_unobserved:
  "f \<notin> set (observed st) \<Longrightarrow> f \<notin> set (observed (fade_run bs st))"
  by (induction bs arbitrary: st) (auto dest: subsetD [OF observed_fade_callback])

lemma fade_callback_keeps:
  "in_cls \<in> set (fade_classes st f) \<and> f \<notin> set (observed st) \<Longrightarrow>
   in_cls \<in> set (fade_classes (fade_callback entries st) f) \<and> f \<notin> set (observed (fade_callback entries st))"
  by (induction entries arbitrary: st) (auto simp: fade_callback_def fade_entry_def)

lemma fade_callback_reveals:
  "(f, True) \<in> set entries \<Longrightarrow>
   in_cls \<in> set (fade_classes (fade_callback entries st) f) \<and> f \<notin> set (observed (fade_callback entries st))"
proof (induction entries arbitrary: st)
  case (Cons e es)
  show ?case
  proof (cases "e = (f, True)")
    case True
    have "in_cls \<in> set (fade_classes (fade_entry e st) f) \<and> f \<notin> set (observed (fade_entry e st))"
      using True by (simp add: fade_entry_def)
    from fade_callback_keeps [OF this, of es] show ?thesis by (simp add: fade_callback_def)
  next
    case False
    with Cons.prems have "(f, True) \<in> set es" by simp
    from Cons.IH [OF this, of "fade_entry e st"] show ?thesis by (simp add: fade_callback_def)
  qed
qed simp


text \<open>C8: an observed fade-up element that the observer reports as intersecting gains the class \<open>in\<close> and is no longer observed, so no later batch of the observer reports it or changes its classes again: the reveal is one-shot.\<close>
theorem fade_one_shot:
  assumes "(f, True) \<in> set (deliver st b)"
  shows "in_cls \<in> set (fade_classes (fade_run [b] st) f) \<and>
         fade_classes (fade_run (b # bs) st) f = fade_classes (fade_run [b] st) f \<and>
         f \<notin> set (observed (fade_run (b # bs) st))"
proof -
  let ?st' = "fade_callback (deliver st b) st"
  from fade_callback_reveals [OF assms] have "in_cls \<in> set (fade_classes ?st' f)"
    and gone: "f \<notin> set (observed ?st')" by auto
  with fade_run_untouched [OF gone, of bs] fade_run_unobserved [OF gone, of bs]
  show ?thesis by simp
qed

lemma fade_entry_inv: "fade_inv faders st \<Longrightarrow> fade_inv faders (fade_entry e st)"
  by (auto simp: fade_inv_def fade_entry_def list_all_iff)

lemma fade_callback_inv: "fade_inv faders st \<Longrightarrow> fade_inv faders (fade_callback entries st)"
  by (induction entries arbitrary: st) (simp_all add: fade_callback_def fade_entry_inv)


text \<open>C18: along any sequence of observer batches, an element is still observed exactly when it has not been revealed, and only fade-up elements are observed.\<close>
lemma fade_run_inv: "fade_inv faders st \<Longrightarrow> fade_inv faders (fade_run bs st)"
  by (induction bs arbitrary: st) (simp_all add: fade_callback_inv)

lemma fade_init_inv:
  "list_all (\<lambda>f. in_cls \<notin> set (cls f)) faders \<Longrightarrow> fade_inv faders (fade_init faders cls)"
  by (auto simp: fade_inv_def fade_init_def list_all_iff)

theorem fade_run_inv_witness:
  "fade_inv [0, 1] (fade_run [[(0, True)], [(1, False)]] (fade_init [0, 1] (\<lambda>_. [])))"
proof -
  have "fade_inv [0, 1] (fade_init [0::nat, 1] (\<lambda>_. []))"
    by (rule fade_init_inv) simp
  then show ?thesis by (rule fade_run_inv)
qed

theorem fade_one_shot_witness:
  "in_cls \<in> set (fade_classes (fade_run [[(0, True)]] (fade_init [0, 1] (\<lambda>_. []))) 0) \<and>
   fade_classes (fade_run [[(0, True)], [(0, True), (1, False)], [(0, True)]] (fade_init [0, 1] (\<lambda>_. []))) 0
     = fade_classes (fade_run [[(0, True)]] (fade_init [0, 1] (\<lambda>_. []))) 0"
proof -
  have "(0, True) \<in> set (deliver (fade_init [0, 1] (\<lambda>_. [])) [(0::nat, True)])"
    by (simp add: deliver_def fade_init_def)
  from fade_one_shot [OF this, of "[[(0, True), (1, False)], [(0, True)]]"] show ?thesis by simp
qed

end
