(* ===== verification/ProjectFilter.thy ===== *)
theory ProjectFilter
  imports ClassList
begin

text \<open>
  The project filter (src/script.js lines 117--130). The state holds the buttons of
  \<open>.filter\<close> (their \<open>data-filter\<close> attribute, \<open>None\<close> when absent, so that
  \<open>btn.dataset.filter\<close> is \<open>undefined\<close>, and their class list) and the items of
  \<open>.project\<close> (their \<open>data-type\<close>, and the inline \<open>style.display\<close>, the empty
  string when shown). JavaScript's \<open>===\<close> on a string or \<open>undefined\<close> is equality
  on \<open>jstring option\<close>: \<open>undefined === undefined\<close> holds. A click is identified
  by the index of the button in document order; a click on an index with no button
  runs no handler.
\<close>

record filter_btn =
  btn_filter :: "jstring option"
  btn_classes :: class_list

record project =
  ptype :: "jstring option"
  pdisplay :: jstring

record filter_state =
  filters :: "filter_btn list"
  projects :: "project list"

definition all_filter :: jstring where
  "all_filter = js ''all''"

definition none_display :: jstring where
  "none_display = js ''none''"

definition show_project :: "jstring option \<Rightarrow> project \<Rightarrow> project" where
  "show_project f p =
     (if f = Some all_filter \<or> ptype p = f then p\<lparr>pdisplay := []\<rparr> else p\<lparr>pdisplay := none_display\<rparr>)"

definition filter_click :: "nat \<Rightarrow> filter_state \<Rightarrow> filter_state" where
  "filter_click i st =
     (if i < length (filters st) then
        (let fs = map (\<lambda>b. b\<lparr>btn_classes := cl_remove active_cls (btn_classes b)\<rparr>) (filters st);
             fs' = fs[i := (fs ! i)\<lparr>btn_classes := cl_add active_cls (btn_classes (fs ! i))\<rparr>];
             f = btn_filter (fs' ! i)
         in st\<lparr>filters := fs', projects := map (show_project f) (projects st)\<rparr>)
      else st)"

definition active_filters :: "filter_state \<Rightarrow> nat list" where
  "active_filters st =
     filter (\<lambda>j. active_cls \<in> set (btn_classes (filters st ! j))) [0..<length (filters st)]"

definition shown :: "project \<Rightarrow> bool" where
  "shown p \<longleftrightarrow> pdisplay p \<noteq> none_display"

subsection \<open>Properties\<close>

lemma filter_click_length [simp]: "length (filters (filter_click i st)) = length (filters st)"
  by (simp add: filter_click_def Let_def)

lemma active_filter_click:
  "i < length (filters st) \<Longrightarrow> j < length (filters st) \<Longrightarrow>
   active_cls \<in> set (btn_classes (filters (filter_click i st) ! j)) \<longleftrightarrow> j = i"
  by (auto simp: filter_click_def Let_def nth_list_update)

text \<open>C10: after a click on a filter button, that button is the only filter button carrying the class \<open>active\<close>.\<close>
theorem filter_click_single_active:
  "i < length (filters st) \<Longrightarrow> active_filters (filter_click i st) = [i]"
proof -
  assume i: "i < length (filters st)"
  have "filter (\<lambda>j. active_cls \<in> set (btn_classes (filters (filter_click i st) ! j)))
          [0..<length (filters st)] = filter (\<lambda>j. j = i) [0..<length (filters st)]"
    using active_filter_click [OF i] by (auto intro: filter_cong)
  also have "\<dots> = [i]"
    using i by (simp add: filter_eq_single)
  finally show ?thesis by (simp add: active_filters_def)
qed

text \<open>C9: clicking a filter button shows exactly the projects whose \<open>data-type\<close> equals the button's \<open>data-filter\<close>, or every project when the filter is \<open>all\<close>, and hides the others.\<close>
theorem filter_click_shows:
  assumes "i < length (filters st)"
  shows "map pdisplay (projects (filter_click i st)) =
           map (\<lambda>p. if btn_filter (filters st ! i) = Some all_filter \<or> ptype p = btn_filter (filters st ! i)
                     then [] else none_display) (projects st)"
  using assms by (simp add: filter_click_def Let_def show_project_def)

lemma show_project_twice [simp]: "show_project f (show_project g p) = show_project f p"
  by (simp add: show_project_def)

lemma cleared_filter_click:
  "map (\<lambda>b. b\<lparr>btn_classes := cl_remove active_cls (btn_classes b)\<rparr>) (filters (filter_click j st)) =
   map (\<lambda>b. b\<lparr>btn_classes := cl_remove active_cls (btn_classes b)\<rparr>) (filters st)"
  by (auto simp: filter_click_def Let_def map_update intro!: nth_equalityI simp: nth_list_update)

lemma btn_filter_filter_click [simp]:
  "map btn_filter (filters (filter_click j st)) = map btn_filter (filters st)"
  by (auto simp: filter_click_def Let_def intro!: nth_equalityI simp: nth_list_update)

lemma ptype_filter_click [simp]: "map ptype (projects (filter_click j st)) = map ptype (projects st)"
  by (simp add: filter_click_def Let_def show_project_def comp_def)


text \<open>C23: a click on a filter button makes the page independent of any earlier filter click: only the last click matters.\<close>
theorem filter_click_last_wins:
  assumes "j < length (filters st)" and True: "i < length (filters st)"
  shows "filter_click i (filter_click j st) = filter_click i st"
proof -
  have "btn_filter (filters (filter_click j st) ! i) = btn_filter (filters st ! i)"
    using btn_filter_filter_click [of j st] True
    by (metis filter_click_length nth_map)
  with True assms show ?thesis
    using cleared_filter_click [of j st]
    by (simp add: filter_click_def [of i] Let_def) (simp add: filter_click_def Let_def comp_def)
qed


theorem filter_click_single_active_witness:
  "active_filters (filter_click 1 \<lparr>filters = [\<lparr>btn_filter = Some (js ''all''), btn_classes = [active_cls]\<rparr>,
                \<lparr>btn_filter = Some (js ''web''), btn_classes = []\<rparr>],
     projects = [\<lparr>ptype = Some (js ''web''), pdisplay = []\<rparr>,
                 \<lparr>ptype = Some (js ''app''), pdisplay = []\<rparr>]\<rparr>) = [1]"
  by (rule filter_click_single_active) simp

theorem filter_click_shows_witness:
  "map pdisplay (projects (filter_click 1 \<lparr>filters = [\<lparr>btn_filter = Some (js ''all''), btn_classes = [active_cls]\<rparr>,
                \<lparr>btn_filter = Some (js ''web''), btn_classes = []\<rparr>],
     projects = [\<lparr>ptype = Some (js ''web''), pdisplay = []\<rparr>,
                 \<lparr>ptype = Some (js ''app''), pdisplay = []\<rparr>]\<rparr>)) = [[], none_display]"
  using filter_click_shows [of 1 "\<lparr>filters = [\<lparr>btn_filter = Some (js ''all''), btn_classes = [active_cls]\<rparr>,
                \<lparr>btn_filter = Some (js ''web''), btn_classes = []\<rparr>],
     projects = [\<lparr>ptype = Some (js ''web''), pdisplay = []\<rparr>,
                 \<lparr>ptype = Some (js ''app''), pdisplay = []\<rparr>]\<rparr>"]
  by (simp add: all_filter_def js_def)

theorem filter_click_last_wins_witness:
  "filter_click 1 (filter_click 0 \<lparr>filters = [\<lparr>btn_filter = Some (js ''all''), btn_classes = [active_cls]\<rparr>,
                \<lparr>btn_filter = Some (js ''web''), btn_classes = []\<rparr>],
     projects = [\<lparr>ptype = Some (js ''web''), pdisplay = []\<rparr>,
                 \<lparr>ptype = Some (js ''app''), pdisplay = []\<rparr>]\<rparr>) = filter_click 1 \<lparr>filters = [\<lparr>btn_filter = Some (js ''all''), btn_classes = [active_cls]\<rparr>,
                \<lparr>btn_filter = Some (js ''web''), btn_classes = []\<rparr>],
     projects = [\<lparr>ptype = Some (js ''web''), pdisplay = []\<rparr>,
                 \<lparr>ptype = Some (js ''app''), pdisplay = []\<rparr>]\<rparr>"
  by (rule filter_click_last_wins) simp_all

end
