(* ===== verification/Theme.thy ===== *)
theory Theme
  imports ClassList
begin

text \<open>
  The small niceties (src/script.js lines 133--142): the footer year and the glow
  toggle. The state holds the class list of the document element, the text of the
  \<open>#themeToggle\<close> button and the text of the \<open>#year\<close> element (\<open>None\<close> when the
  element is absent). Assigning the number \<open>getFullYear()\<close> to \<open>textContent\<close>
  converts it with \<open>String(n)\<close>: decimal digits, with a minus sign when negative
  (\<open>js_int_string\<close>, modelled from the ECMAScript specification for integers).
  The year itself is an input of the model: it is the browser's clock read in local
  time. \<open>dec_value\<close> reads a string of decimal digits back, for the roundtrip.
\<close>

record theme_state =
  root_classes :: class_list
  toggle_label :: "jstring option"
  year_text :: "jstring option"

definition glow_cls :: jstring where
  "glow_cls = js ''glow''"

definition glow_on_label :: jstring where
  "glow_on_label = js ''Glow: ON''"

definition glow_off_label :: jstring where
  "glow_off_label = js ''Glow''"

definition theme_click :: "theme_state \<Rightarrow> theme_state" where
  "theme_click st =
     (let cs = cl_toggle glow_cls (root_classes st)
      in st\<lparr>root_classes := cs,
            toggle_label := Some (if cl_contains glow_cls cs then glow_on_label else glow_off_label)\<rparr>)"

definition digit_unit :: "nat \<Rightarrow> code_unit" where
  "digit_unit d = 0x30 + of_nat d"

fun dec_string :: "nat \<Rightarrow> jstring" where
  "dec_string n = (if n < 10 then [digit_unit n] else dec_string (n div 10) @ [digit_unit (n mod 10)])"

definition js_int_string :: "int \<Rightarrow> jstring" where
  "js_int_string i = (if i < 0 then 0x2D # dec_string (nat (- i)) else dec_string (nat i))"

definition year_stamp :: "int \<Rightarrow> theme_state \<Rightarrow> theme_state" where
  "year_stamp y st =
     (case year_text st of None \<Rightarrow> st | Some _ \<Rightarrow> st\<lparr>year_text := Some (js_int_string y)\<rparr>)"

definition dec_value :: "jstring \<Rightarrow> nat" where
  "dec_value s = foldl (\<lambda>acc c. 10 * acc + (unat c - 0x30)) 0 s"

text \<open>The toggle's label tells whether the glow class is set.\<close>

definition theme_inv :: "theme_state \<Rightarrow> bool" where
  "theme_inv st \<longleftrightarrow>
     (case toggle_label st of
        None \<Rightarrow> True
      | Some l \<Rightarrow> l = (if glow_cls \<in> set (root_classes st) then glow_on_label else glow_off_label))"

text \<open>The abstract contract of the toggle: the set of classes of the document
  element gains the glow class when it lacks it and loses it otherwise.\<close>

definition glow_spec :: "jstring set \<Rightarrow> jstring set" where
  "glow_spec S = (if glow_cls \<in> S then S - {glow_cls} else insert glow_cls S)"

subsection \<open>Properties\<close>

declare dec_string.simps [simp del]

lemma unat_digit_unit: "d < 10 \<Longrightarrow> unat (digit_unit d) = 48 + d"
proof -
  assume "d < 10"
  have "digit_unit d = of_nat (48 + d)" by (simp add: digit_unit_def)
  moreover have "(48 + d) mod 2 ^ LENGTH(16) = 48 + d" using \<open>d < 10\<close> by simp
  ultimately show ?thesis by (simp only: unat_of_nat)
qed

lemma dec_value_append: "dec_value (s @ [c]) = 10 * dec_value s + (unat c - 0x30)"
  by (simp add: dec_value_def)

theorem dec_string_roundtrip: "dec_value (dec_string n) = n"
proof (induction n rule: dec_string.induct)
  case (1 n)
  show ?case
  proof (cases "n < 10")
    case True
    then show ?thesis
      by (simp add: dec_string.simps [of n] dec_value_def unat_digit_unit)
  next
    case False
    with "1.IH" have "dec_value (dec_string (n div 10)) = n div 10" by simp
    with False show ?thesis
      by (simp add: dec_string.simps [of n] dec_value_append unat_digit_unit)
  qed
qed

lemma theme_click_inv: "theme_inv (theme_click st)"
  by (simp add: theme_inv_def theme_click_def Let_def)


text \<open>C16: for a non-negative year, the text the script writes into the footer year element reads back as that year: the element shows the current calendar year in decimal.\<close>
theorem year_stamp_roundtrip:
  assumes "year_text st \<noteq> None" and "0 \<le> y"
  shows "map_option dec_value (year_text (year_stamp y st)) = Some (nat y)"
  using assms by (auto simp: year_stamp_def js_int_string_def dec_string_roundtrip)


text \<open>C26: after a click on the glow toggle its label is \<open>Glow: ON\<close> exactly when the glow class was off before the click, that is, when the click switched it on.\<close>
theorem theme_click_label:
  "toggle_label (theme_click st) = Some glow_on_label \<longleftrightarrow> glow_cls \<notin> set (root_classes st)"
  by (simp add: theme_click_def Let_def glow_on_label_def glow_off_label_def)

theorem year_stamp_roundtrip_witness:
  "map_option dec_value (year_text (year_stamp 2026 \<lparr>root_classes = [], toggle_label = None, year_text = Some []\<rparr>))
   = Some 2026"
  using year_stamp_roundtrip [of "\<lparr>root_classes = [], toggle_label = None, year_text = Some []\<rparr>" 2026]
  by simp

text \<open>C27: the glow toggle refines its abstract contract: on a class list without duplicates it yields a class list without duplicates whose set is the abstract toggle of the old set, and the label agrees with the new class set.\<close>
theorem theme_click_refines:
  assumes "distinct (root_classes st)"
  shows "distinct (root_classes (theme_click st)) \<and>
         set (root_classes (theme_click st)) = glow_spec (set (root_classes st)) \<and>
         theme_inv (theme_click st)"
  using assms by (simp add: theme_click_def Let_def glow_spec_def theme_inv_def)

theorem theme_click_refines_witness:
  "distinct (root_classes (theme_click \<lparr>root_classes = [js ''dark''], toggle_label = Some glow_off_label, year_text = None\<rparr>)) \<and>
   set (root_classes (theme_click \<lparr>root_classes = [js ''dark''], toggle_label = Some glow_off_label, year_text = None\<rparr>))
     = glow_spec (set [js ''dark'']) \<and>
   theme_inv (theme_click \<lparr>root_classes = [js ''dark''], toggle_label = Some glow_off_label, year_text = None\<rparr>)"
  using theme_click_refines [of "\<lparr>root_classes = [js ''dark''], toggle_label = Some glow_off_label, year_text = None\<rparr>"]
  by simp

lemma year_stamp_2026:
  "year_text (year_stamp 2026 \<lparr>root_classes = [], toggle_label = None, year_text = Some []\<rparr>) = Some (js ''2026'')"
  by (simp add: year_stamp_def js_int_string_def dec_string.simps digit_unit_def js_def)

end
