(* ===== verification/Spec2Isabelle.thy ===== *)
theory Spec2Isabelle
  imports Prelude ClassList Escape Overlay Form Nav Reveal ProjectFilter Theme
begin

text \<open>
  \<^bold>\<open>A verification model of src/script.js.\<close>
  The repository is a static portfolio page; its only program is src/script.js, one
  \<open>DOMContentLoaded\<close> handler (lines 5--144) that wires event handlers and two
  IntersectionObservers to the page. There is no server, no storage and no network.
  The handlers share no state except the document, and each touches its own part of
  it; they interact through two utilities: \<open>scrollToSection\<close>, called by the header
  links, the explore button and the keyboard shortcut, and the transient-node utilities
  \<open>toast\<close> and \<open>showModal\<close>, called by the contact form, which in turn calls
  \<open>escapeHtml\<close>.

  \<^bold>\<open>Theories and what they model.\<close>
  \<^item> \<open>Prelude\<close>: JavaScript strings as lists of UTF-16 code units (\<open>16 word\<close>),
    exceptions inside handlers (\<open>js_result\<close>: the state a handler leaves when it throws
    is kept, as in the browser), \<open>forEach\<close> with that exception behaviour, and the
    string built-ins the script calls (\<open>trim\<close>, \<open>toLowerCase\<close>, \<open>replace\<close>);
    generic lemmas on lists.
  \<^item> \<open>ClassList\<close>: \<open>element.classList\<close> (add, remove, toggle, contains) as a
    duplicate-free list, from the DOM standard.
  \<^item> \<open>Escape\<close>: \<open>escapeHtml\<close> (line 72) with its roundtrip against an entity
    decoder, its equivalence with the chain of five \<open>replace\<close> calls, its output
    alphabet and its length bounds.
  \<^item> \<open>Overlay\<close>: \<open>toast\<close> and \<open>showModal\<close> (lines 74--100) over a state holding the
    nodes appended to \<open>document.body\<close>, a millisecond clock, the pending
    \<open>setTimeout\<close> callbacks and the close-button listeners; \<open>tick\<close> lets time pass
    and fires due callbacks; \<open>close_click\<close> and \<open>backdrop_click\<close> are the modal's
    listeners. The invariant \<open>overlay_inv\<close> says every node has a pending removal at
    most 3000 ms away.
  \<^item> \<open>Form\<close>: \<open>sendMessage\<close> and \<open>prefillMessage\<close> (lines 57--70, 103--109) over
    the four optional form controls, producing the overlay effects; \<open>type_into\<close> is
    the visitor typing into a control (browser behaviour, not script code).
  \<^item> \<open>Nav\<close>: \<open>scrollToSection\<close>, the header-link and explore-button click handlers,
    the scroll-spy callback and the keyboard shortcut (lines 8--42, 112--114).
  \<^item> \<open>Reveal\<close>: the fade-up observer callback (lines 45--54) and the observer's
    delivery of entries for observed targets only.
  \<^item> \<open>ProjectFilter\<close>: the filter-button click handler (lines 117--130).
  \<^item> \<open>Theme\<close>: the footer year and the glow toggle (lines 133--142), with
    \<open>String(n)\<close> for the year and \<open>glow_spec\<close>, the abstract set toggle that
    \<open>theme_click\<close> refines.
  \<^item> This theory: the page as the record of all these parts (\<open>page\<close>), the events
    the browser can deliver (\<open>event\<close>), the dispatch \<open>page_step\<close> that the
    \<open>DOMContentLoaded\<close> wiring sets up (an exception thrown by a handler is reported
    to the console and the page goes on), the load-time effects (\<open>page_load\<close>), and
    the reachable pages as an inductive predicate.

  \<^bold>\<open>What the theorems show.\<close> For the form: a blank field (after trimming) only shows
  the warning; a complete form is reset and confirmed by a modal containing the
  escaped name and e-mail, and user input never adds a tag to that modal. For
  \<open>escapeHtml\<close>: no markup characters in the output, a lossless roundtrip, equality
  with the five chained replacements, length between one and six times the input, and
  the strings it leaves unchanged are exactly those without the five special units.
  For navigation: a link \<open>#ID\<close> scrolls to exactly ID; the scroll-spy highlights the
  first link of the last intersecting section and nothing else, and any intersecting
  id with a double quote aborts the callback with every highlight cleared. For the reveal: the
  class \<open>in\<close> is added once and the element is never touched again. For the filter:
  the shown projects are exactly the matching ones, only the clicked button is active,
  and only the last click matters. For the glow toggle: the label reports the new
  state and the click refines the abstract set toggle \<open>glow_spec\<close>. For the transient nodes: a toast lives exactly
  2400 ms, and from every reachable page 3000 ms of quiet remove every toast and
  modal. Across the page: every reachable page keeps the invariants of all parts, and
  a visitor who sends the form twice within three seconds gets a second confirmation
  that its own Close button cannot close.
  Five theorems record findings: the modal close button found by
  \<open>qs('#modalClose')\<close> belongs to the oldest open modal (in \<open>Overlay\<close>, and
  reached from a loaded page in this theory); a nav link to another page
  (\<open>index.html#about\<close>) is dead; the shortcut E fires while typing in the form; a
  section id with a double quote makes the scroll-spy throw; a filter button without
  \<open>data-filter\<close> shows only untagged projects.

  \<^bold>\<open>Bounds and choices.\<close> Time is a natural number of milliseconds; the two delays
  (2400 and 3000) come from the source and give the bound of the liveness theorem.
  No loop of the script can run forever: every loop is a \<open>forEach\<close> over a finite
  list, modelled by structural recursion, so no fuel is needed. The year is an input
  (the browser's clock).

  \<^bold>\<open>Not modelled.\<close> Layout, CSS, the smooth-scrolling animation and focus rendering
  (only the fact that an element is scrolled into view, and which button is focused,
  is recorded); the geometry that decides when an IntersectionObserver fires (a batch
  of entries is an arbitrary input); \<open>getFullYear\<close> (the year is an input); the HTML
  parsing of \<open>innerHTML\<close> (a modal's markup is kept as a string); CSS escapes in the
  scroll-spy selector (ids with a backslash or NUL are over-approximated as invalid);
  full Unicode \<open>toLowerCase\<close> (only A--Z are mapped, which decides the comparison
  with \<open>e\<close> exactly). The page's HTML is not in the repository: it is assumed to
  hold no element with id \<open>modalClose\<close> outside the modals, the four form controls
  inside the form, and the form's submit handler to be \<open>sendMessage\<close>; the initial
  HTML is well formed in the sense of \<open>dom_ok\<close>.
\<close>

record page =
  pnav :: nav_state
  pfade :: fade_state
  faders :: "nat list"
  pform :: contact_form
  pfilter :: filter_state
  ptheme :: theme_state
  poverlay :: overlay
  explore_present :: bool
  console :: "js_error list"

datatype event =
    NavClick nat
  | ExploreClick
  | SpyBatch "(jstring \<times> bool) list"
  | FadeBatch "(nat \<times> bool) list"
  | Submit
  | Prefill
  | KeyDown key_event
  | FilterClick nat
  | ThemeClick
  | Tick nat
  | ModalCloseClick nat
  | BackdropClick nat
  | Input form_control jstring

definition report_nav :: "nav_state js_result \<Rightarrow> page \<Rightarrow> page" where
  "report_nav r p =
     (case r of
        Normal s \<Rightarrow> p\<lparr>pnav := s\<rparr>
      | Thrown e s \<Rightarrow> p\<lparr>pnav := s, console := console p @ [e]\<rparr>)"

fun page_step :: "event \<Rightarrow> page \<Rightarrow> page" where
  "page_step (NavClick i) p =
     (if i < length (links (pnav p)) then report_nav (nav_click (links (pnav p) ! i) (pnav p)) p else p)"
| "page_step ExploreClick p =
     (if explore_present p then p\<lparr>pnav := explore_click (pnav p)\<rparr> else p)"
| "page_step (SpyBatch es) p = report_nav (spy_callback es (pnav p)) p"
| "page_step (FadeBatch b) p = p\<lparr>pfade := fade_callback (deliver (pfade p) b) (pfade p)\<rparr>"
| "page_step Submit p =
     (let r = sendMessage (pform p) (poverlay p) in p\<lparr>pform := fst r, poverlay := snd r\<rparr>)"
| "page_step Prefill p =
     (let r = prefillMessage (pform p) (poverlay p) in p\<lparr>pform := fst r, poverlay := snd r\<rparr>)"
| "page_step (KeyDown ev) p = p\<lparr>pnav := keydown ev (pnav p)\<rparr>"
| "page_step (FilterClick i) p = p\<lparr>pfilter := filter_click i (pfilter p)\<rparr>"
| "page_step ThemeClick p =
     (if toggle_label (ptheme p) \<noteq> None then p\<lparr>ptheme := theme_click (ptheme p)\<rparr> else p)"
| "page_step (Tick d) p = p\<lparr>poverlay := tick d (poverlay p)\<rparr>"
| "page_step (ModalCloseClick m) p = p\<lparr>poverlay := close_click m (poverlay p)\<rparr>"
| "page_step (BackdropClick m) p = p\<lparr>poverlay := backdrop_click m (poverlay p)\<rparr>"
| "page_step (Input c v) p = p\<lparr>pform := type_into c v (pform p)\<rparr>"

definition page_run :: "event list \<Rightarrow> page \<Rightarrow> page" where
  "page_run es p = fold page_step es p"

record page_dom =
  dom_links :: "nav_link list"
  dom_ids :: "jstring list"
  dom_faders :: "nat list"
  dom_classes :: "nat \<Rightarrow> class_list"
  dom_form :: contact_form
  dom_filters :: "filter_btn list"
  dom_projects :: "project list"
  dom_root_classes :: class_list
  dom_toggle_label :: "jstring option"
  dom_year :: "jstring option"
  dom_explore :: bool

definition page_load :: "int \<Rightarrow> page_dom \<Rightarrow> page" where
  "page_load year d =
     \<lparr>pnav = \<lparr>links = dom_links d, doc_ids = dom_ids d, scrolled = []\<rparr>,
      pfade = fade_init (dom_faders d) (dom_classes d),
      faders = dom_faders d,
      pform = dom_form d,
      pfilter = \<lparr>filters = dom_filters d, projects = dom_projects d\<rparr>,
      ptheme = year_stamp year \<lparr>root_classes = dom_root_classes d, toggle_label = dom_toggle_label d,
                                year_text = dom_year d\<rparr>,
      poverlay = overlay_init,
      explore_present = dom_explore d,
      console = []\<rparr>"

inductive reachable :: "page \<Rightarrow> page \<Rightarrow> bool" for p0 :: page where
  start: "reachable p0 p0"
| step: "reachable p0 p \<Longrightarrow> reachable p0 (page_step e p)"

definition page_inv :: "page \<Rightarrow> bool" where
  "page_inv p \<longleftrightarrow>
     spy_inv (pnav p) \<and> overlay_inv (poverlay p) \<and> fade_inv (faders p) (pfade p) \<and>
     length (active_filters (pfilter p)) \<le> 1 \<and> theme_inv (ptheme p)"

definition dom_ok :: "page_dom \<Rightarrow> bool" where
  "dom_ok d \<longleftrightarrow>
     length (filter (\<lambda>n. active_cls \<in> set (link_classes n)) (dom_links d)) \<le> 1 \<and>
     length (filter (\<lambda>b. active_cls \<in> set (btn_classes b)) (dom_filters d)) \<le> 1 \<and>
     list_all (\<lambda>f. in_cls \<notin> set (dom_classes d f)) (dom_faders d) \<and>
     theme_inv \<lparr>root_classes = dom_root_classes d, toggle_label = dom_toggle_label d, year_text = None\<rparr>"

subsection \<open>Properties of the page\<close>

lemma length_filter_le_one:
  "(\<And>j. j \<in> set xs \<Longrightarrow> P j \<Longrightarrow> j = i) \<Longrightarrow> distinct xs \<Longrightarrow> length (filter P xs) \<le> 1"
proof (induction xs)
  case (Cons x xs)
  then show ?case
    by (cases "P x") (auto simp: filter_empty_conv)
qed simp

lemma active_filters_le_one:
  "length (active_filters st) \<le> 1 \<Longrightarrow> length (active_filters (filter_click i st)) \<le> 1"
proof (cases "i < length (filters st)")
  case True
  have "length (filter (\<lambda>j. active_cls \<in> set (btn_classes (filters (filter_click i st) ! j)))
          [0..<length (filters st)]) \<le> 1"
    by (rule length_filter_le_one [where i = i]) (auto simp: active_filter_click [OF True])
  then show ?thesis by (simp add: active_filters_def)
qed (simp add: filter_click_def)

lemma spy_inv_report_nav:
  "spy_inv (res_state r) \<Longrightarrow> spy_inv (pnav (report_nav r p))"
  by (cases r) (simp_all add: report_nav_def)

lemma report_nav_other [simp]:
  "pfade (report_nav r p) = pfade p" "faders (report_nav r p) = faders p"
  "pform (report_nav r p) = pform p" "pfilter (report_nav r p) = pfilter p"
  "ptheme (report_nav r p) = ptheme p" "poverlay (report_nav r p) = poverlay p"
  by (cases r; simp add: report_nav_def)+

lemma spy_inv_nav_click: "spy_inv st \<Longrightarrow> spy_inv (res_state (nav_click a st))"
  by (simp add: spy_inv_def active_links_def)

lemma page_step_inv: "page_inv p \<Longrightarrow> page_inv (page_step e p)"
proof (cases e)
  case (NavClick i)
  assume "page_inv p"
  then show ?thesis using NavClick
    by (auto simp: page_inv_def intro: spy_inv_report_nav spy_inv_nav_click)
next
  case (SpyBatch es)
  assume "page_inv p"
  then show ?thesis using SpyBatch
    by (auto simp: page_inv_def intro: spy_inv_report_nav spy_callback_inv)
next
  case (FadeBatch b)
  assume "page_inv p"
  then show ?thesis using FadeBatch by (simp add: page_inv_def fade_callback_inv)
next
  case Submit
  assume "page_inv p"
  then show ?thesis using Submit by (simp add: page_inv_def Let_def sendMessage_inv)
next
  case Prefill
  assume "page_inv p"
  then show ?thesis using Prefill by (simp add: page_inv_def Let_def prefillMessage_inv)
next
  case (KeyDown ev)
  assume "page_inv p"
  then show ?thesis using KeyDown by (simp add: page_inv_def spy_inv_def active_links_def)
next
  case (FilterClick i)
  assume "page_inv p"
  then show ?thesis using FilterClick active_filters_le_one [of "pfilter p" i]
    by (simp add: page_inv_def)
next
  case ThemeClick
  assume "page_inv p"
  then show ?thesis using ThemeClick by (simp add: page_inv_def theme_click_inv)
next
  case (Tick d)
  assume "page_inv p"
  then show ?thesis using Tick by (simp add: page_inv_def tick_inv)
next
  case (ModalCloseClick m)
  assume "page_inv p"
  then show ?thesis using ModalCloseClick by (simp add: page_inv_def close_click_inv)
next
  case (BackdropClick m)
  assume "page_inv p"
  then show ?thesis using BackdropClick by (simp add: page_inv_def backdrop_click_inv)
next
  case ExploreClick
  assume "page_inv p"
  then show ?thesis using ExploreClick by (simp add: page_inv_def spy_inv_def active_links_def)
next
  case (Input c v)
  assume "page_inv p"
  then show ?thesis using Input by (simp add: page_inv_def)
qed

lemma length_filter_upt_nth:
  "length (filter (\<lambda>j. P (xs ! j)) [0..<length xs]) = length (filter P xs)"
proof -
  have "filter P xs = filter P (map (\<lambda>j. xs ! j) [0..<length xs])" by (simp add: map_nth)
  also have "\<dots> = map (\<lambda>j. xs ! j) (filter (\<lambda>j. P (xs ! j)) [0..<length xs])"
    by (simp add: filter_map comp_def)
  finally show ?thesis by simp
qed

lemma page_load_inv: "dom_ok d \<Longrightarrow> page_inv (page_load y d)"
proof -
  assume ok: "dom_ok d"
  have "length (active_filters (pfilter (page_load y d))) =
        length (filter (\<lambda>b. active_cls \<in> set (btn_classes b)) (dom_filters d))"
    using length_filter_upt_nth [of "\<lambda>b. active_cls \<in> set (btn_classes b)" "dom_filters d"]
    by (simp add: active_filters_def page_load_def)
  with ok show ?thesis
    by (simp add: dom_ok_def page_inv_def page_load_def spy_inv_def active_links_def
        overlay_inv_init fade_init_inv theme_inv_def year_stamp_def split: option.splits)
qed

lemma reachable_page_inv: "page_inv p0 \<Longrightarrow> reachable p0 p \<Longrightarrow> page_inv p"
proof -
  assume p0: "page_inv p0"
  show "reachable p0 p \<Longrightarrow> page_inv p"
  proof (induction rule: reachable.induct)
    case start
    from p0 show ?case .
  next
    case (step p e)
    from step.IH show ?case by (rule page_step_inv)
  qed
qed


text \<open>C11: on a page loaded from well-formed HTML, after any sequence of events at most one header link and at most one filter button are active, the reveal, theme and overlay invariants hold.\<close>
theorem loaded_page_invariants:
  assumes "dom_ok d" and "reachable (page_load y d) p"
  shows "length (active_links (pnav p)) \<le> 1 \<and> length (active_filters (pfilter p)) \<le> 1 \<and>
         fade_inv (faders p) (pfade p) \<and> theme_inv (ptheme p) \<and> overlay_inv (poverlay p)"
proof -
  from page_load_inv [OF assms(1)] assms(2) have "page_inv p" by (rule reachable_page_inv)
  then show ?thesis by (simp add: page_inv_def spy_inv_def)
qed


text \<open>C12: on a page loaded from well-formed HTML, whatever happened before, 3000 ms without events leave no toast and no modal in the document.\<close>
theorem quiet_page_clears:
  assumes "dom_ok d" and "reachable (page_load y d) p"
  shows "body (poverlay (page_step (Tick 3000) p)) = []"
proof -
  from page_load_inv [OF assms(1)] assms(2) have "page_inv p" by (rule reachable_page_inv)
  then have "overlay_inv (poverlay p)" by (simp add: page_inv_def)
  then show ?thesis by (simp add: tick_clears_all)
qed

text \<open>C13: on a loaded page whose form has name, e-mail and message controls, a visitor who fills in and sends the form twice within three seconds gets two confirmation modals; a click on the Close button of the second one leaves it open, because its listener went to the first modal's button, and only its 3000 ms auto-close timer removes it.\<close>
theorem second_confirmation_close_stuck:
  assumes "name_el (dom_form d) \<noteq> None" "email_el (dom_form d) \<noteq> None" "msg_el (dom_form d) \<noteq> None"
    and "js_trim n \<noteq> []" "js_trim e \<noteq> []" "js_trim m \<noteq> []"
  shows "let fill = [Input NameCtl n, Input EmailCtl e, Input MsgCtl m, Submit];
             p = page_run (fill @ fill @ [ModalCloseClick 1]) (page_load y d)
         in attached 1 (poverlay p) \<and> \<not> attached 1 (poverlay (page_step (Tick 3000) p))"
proof -
  from assms(1-3) obtain a b c where "name_el (dom_form d) = Some a" "email_el (dom_form d) = Some b"
    "msg_el (dom_form d) = Some c" by blast
  with assms(4-6) show ?thesis
    by (simp add: page_run_def page_load_def type_into_def sendMessage_def field_value_def form_reset_def
        reset_field_def showModal_def first_modal_def overlay_init_def close_click_def attached_def
        tick_eq image_iff)
qed

lemma dom_ok_example: "dom_ok \<lparr>dom_links = [], dom_ids = [js ''courses''], dom_faders = [0], dom_classes = (\<lambda>_. []),
      dom_form = \<lparr>name_el = None, email_el = None, msg_el = None, school_el = None\<rparr>,
      dom_filters = [], dom_projects = [], dom_root_classes = [], dom_toggle_label = Some (js ''Glow''),
      dom_year = Some [], dom_explore = True\<rparr>"
  by (simp add: dom_ok_def theme_inv_def glow_off_label_def glow_cls_def)

theorem loaded_page_invariants_witness:
  "length (active_links (pnav (page_step Submit (page_load 2026 \<lparr>dom_links = [], dom_ids = [js ''courses''], dom_faders = [0], dom_classes = (\<lambda>_. []),
      dom_form = \<lparr>name_el = None, email_el = None, msg_el = None, school_el = None\<rparr>,
      dom_filters = [], dom_projects = [], dom_root_classes = [], dom_toggle_label = Some (js ''Glow''),
      dom_year = Some [], dom_explore = True\<rparr>)))) \<le> 1 \<and>
   overlay_inv (poverlay (page_step Submit (page_load 2026 \<lparr>dom_links = [], dom_ids = [js ''courses''], dom_faders = [0], dom_classes = (\<lambda>_. []),
      dom_form = \<lparr>name_el = None, email_el = None, msg_el = None, school_el = None\<rparr>,
      dom_filters = [], dom_projects = [], dom_root_classes = [], dom_toggle_label = Some (js ''Glow''),
      dom_year = Some [], dom_explore = True\<rparr>)))"
proof -
  have "reachable (page_load 2026 \<lparr>dom_links = [], dom_ids = [js ''courses''], dom_faders = [0], dom_classes = (\<lambda>_. []),
      dom_form = \<lparr>name_el = None, email_el = None, msg_el = None, school_el = None\<rparr>,
      dom_filters = [], dom_projects = [], dom_root_classes = [], dom_toggle_label = Some (js ''Glow''),
      dom_year = Some [], dom_explore = True\<rparr>) (page_step Submit (page_load 2026 \<lparr>dom_links = [], dom_ids = [js ''courses''], dom_faders = [0], dom_classes = (\<lambda>_. []),
      dom_form = \<lparr>name_el = None, email_el = None, msg_el = None, school_el = None\<rparr>,
      dom_filters = [], dom_projects = [], dom_root_classes = [], dom_toggle_label = Some (js ''Glow''),
      dom_year = Some [], dom_explore = True\<rparr>))"
    by (rule reachable.step [OF reachable.start])
  from loaded_page_invariants [OF dom_ok_example this] show ?thesis by simp
qed

theorem quiet_page_clears_witness:
  "body (poverlay (page_step (Tick 3000) (page_step Submit (page_load 2026 \<lparr>dom_links = [], dom_ids = [js ''courses''], dom_faders = [0], dom_classes = (\<lambda>_. []),
      dom_form = \<lparr>name_el = None, email_el = None, msg_el = None, school_el = None\<rparr>,
      dom_filters = [], dom_projects = [], dom_root_classes = [], dom_toggle_label = Some (js ''Glow''),
      dom_year = Some [], dom_explore = True\<rparr>)))) = []"
proof -
  have "reachable (page_load 2026 \<lparr>dom_links = [], dom_ids = [js ''courses''], dom_faders = [0], dom_classes = (\<lambda>_. []),
      dom_form = \<lparr>name_el = None, email_el = None, msg_el = None, school_el = None\<rparr>,
      dom_filters = [], dom_projects = [], dom_root_classes = [], dom_toggle_label = Some (js ''Glow''),
      dom_year = Some [], dom_explore = True\<rparr>) (page_step Submit (page_load 2026 \<lparr>dom_links = [], dom_ids = [js ''courses''], dom_faders = [0], dom_classes = (\<lambda>_. []),
      dom_form = \<lparr>name_el = None, email_el = None, msg_el = None, school_el = None\<rparr>,
      dom_filters = [], dom_projects = [], dom_root_classes = [], dom_toggle_label = Some (js ''Glow''),
      dom_year = Some [], dom_explore = True\<rparr>))"
    by (rule reachable.step [OF reachable.start])
  from quiet_page_clears [OF dom_ok_example this] show ?thesis .
qed

theorem second_confirmation_close_stuck_witness:
  "let fill = [Input NameCtl (js ''Ada''), Input EmailCtl (js ''ada@example.org''), Input MsgCtl (js ''Hello''), Submit];
       p = page_run (fill @ fill @ [ModalCloseClick 1]) (page_load 2026 \<lparr>dom_links = [], dom_ids = [], dom_faders = [], dom_classes = (\<lambda>_. []),
      dom_form = \<lparr>name_el = Some \<lparr>fvalue = [], fdefault = []\<rparr>, email_el = Some \<lparr>fvalue = [], fdefault = []\<rparr>,
                  msg_el = Some \<lparr>fvalue = [], fdefault = []\<rparr>, school_el = None\<rparr>,
      dom_filters = [], dom_projects = [], dom_root_classes = [], dom_toggle_label = None,
      dom_year = None, dom_explore = False\<rparr>)
   in attached 1 (poverlay p) \<and> \<not> attached 1 (poverlay (page_step (Tick 3000) p))"
  by (rule second_confirmation_close_stuck) (simp_all add: js_trim_def js_is_space_def js_def)

end
